theory Spec2Isabelle
  imports Main "HOL-Library.Sublist"
begin

section \<open>JavaScript string primitives used by the sources\<close>

text \<open>
  A JavaScript string is a sequence of code units; the model uses \<open>string\<close>, so a
  character stands for a code unit below 256. \<open>length\<close> counts code units, as
  \<open>String.prototype.length\<close> and \<open>substring\<close> do.

  The file \<open>changelog-generator.ts\<close> writes every escape of a line feed as a doubled
  backslash followed by \<open>n\<close>, both in string literals and in template literals. In
  JavaScript that denotes the two characters backslash and \<open>n\<close>, not a line feed, and
  in a regular expression literal a doubled backslash matches one backslash character.
  The model follows the source text: \<open>bs\<close> is the backslash, \<open>bsn\<close> the two-character
  string.
\<close>

definition bs :: char where
  "bs = CHR 0x5C"

definition bsn :: string where
  "bsn = [bs, CHR ''n'']"

definition bq :: char where
  "bq = CHR 0x60"

text \<open>\<open>String.prototype.trim\<close>: white space and line terminators (below 256).\<close>

definition is_space :: "char \<Rightarrow> bool" where
  "is_space c = (c = CHR 0x09 \<or> c = CHR 0x0A \<or> c = CHR 0x0B \<or> c = CHR 0x0C \<or>
                 c = CHR 0x0D \<or> c = CHR 0x20 \<or> c = CHR 0xA0)"

definition trim :: "string \<Rightarrow> string" where
  "trim s = rev (dropWhile is_space (rev (dropWhile is_space s)))"

text \<open>\<open>s.includes(pat)\<close>: \<open>pat\<close> occurs in \<open>s\<close> as a contiguous substring.\<close>

fun includes_str :: "string \<Rightarrow> string \<Rightarrow> bool" where
  "includes_str [] pat = (pat = [])"
| "includes_str (c # cs) pat = (prefix pat (c # cs) \<or> includes_str cs pat)"

text \<open>\<open>s.substring(0, n)\<close> is \<open>take n s\<close>.\<close>

definition substring0 :: "nat \<Rightarrow> string \<Rightarrow> string" where
  "substring0 n s = take n s"

text \<open>
  \<open>s.split(sep)\<close> for a string separator: the pieces between the occurrences of
  \<open>sep\<close>, found from left to right without overlap; an empty separator splits into
  single code units.
\<close>

function split_from :: "string \<Rightarrow> string \<Rightarrow> string \<Rightarrow> string list" where
  "split_from sep cur [] = [cur]"
| "split_from sep cur (c # cs) =
     (if sep \<noteq> [] \<and> prefix sep (c # cs)
      then cur # split_from sep [] (drop (length sep) (c # cs))
      else split_from sep (cur @ [c]) cs)"
  by pat_completeness auto
termination
  by (relation "measure (\<lambda>(sep, cur, s). length s)") auto

definition split :: "string \<Rightarrow> string \<Rightarrow> string list" where
  "split s sep = (if sep = [] then map (\<lambda>c. [c]) s else split_from sep [] s)"

text \<open>\<open>xs.join(sep)\<close>.\<close>

fun join :: "string list \<Rightarrow> string \<Rightarrow> string" where
  "join [] sep = []"
| "join [x] sep = x"
| "join (x # y # ys) sep = x @ sep @ join (y # ys) sep"

text \<open>Decimal rendering of a non-negative integer (\<open>toString\<close>, template interpolation).\<close>

definition digit_char :: "nat \<Rightarrow> char" where
  "digit_char d =
     (if d = 0 then CHR ''0'' else if d = 1 then CHR ''1'' else if d = 2 then CHR ''2''
      else if d = 3 then CHR ''3'' else if d = 4 then CHR ''4'' else if d = 5 then CHR ''5''
      else if d = 6 then CHR ''6'' else if d = 7 then CHR ''7'' else if d = 8 then CHR ''8''
      else CHR ''9'')"

fun toString :: "nat \<Rightarrow> string" where
  "toString n = (if n < 10 then [digit_char n] else toString (n div 10) @ [digit_char (n mod 10)])"

text \<open>Truthiness of an optional string: \<open>undefined\<close>, \<open>null\<close> and \<open>''\<close> are falsy.\<close>

fun truthy :: "string option \<Rightarrow> bool" where
  "truthy None = False"
| "truthy (Some s) = (s \<noteq> [])"

text \<open>\<open>a || d\<close> for an optional string and a string default.\<close>

definition or_default :: "string option \<Rightarrow> string \<Rightarrow> string" where
  "or_default a d = (case a of Some s \<Rightarrow> (if s \<noteq> [] then s else d) | None \<Rightarrow> d)"

text \<open>\<open>n || 0\<close> for an optional count.\<close>

definition or0 :: "nat option \<Rightarrow> nat" where
  "or0 n = (case n of Some k \<Rightarrow> k | None \<Rightarrow> 0)"

section \<open>Effects\<close>

text \<open>
  Every effect of a run is recorded, in order, in a trace. An error is the text its
  interpolation into a template produces; \<open>Inl\<close> carries it.
\<close>

record GitChange =
  fileName :: string
  insertions :: nat
  deletions :: nat
  diff :: string

record GitCommit =
  hash :: string
  date :: string
  message :: string
  author :: string
  email :: string

record AnalyzedChanges =
  commits :: "GitCommit list"
  files :: "GitChange list"
  totalInsertions :: nat
  totalDeletions :: nat
  fromTag :: string
  toRef :: string

datatype ClaudeClient =
  AnthropicClaudeClient string string
| BedrockClaudeClient string string
| VertexClaudeClient string string string

datatype event =
  Info string
| Warn string
| SetOutput string string
| SetFailed string
| BuildPrompt AnalyzedChanges
| GenerateResponse ClaudeClient string
| WriteFile string string

section \<open>git-analyzer.ts\<close>

text \<open>
  The repository handle of \<open>simple-git\<close>: what each of its calls answers. An entry of
  the log and an entry of the diff summary carry the fields the analyzer reads; the
  counts of a summary entry are absent for a binary file.
\<close>

record LogEntry =
  le_hash :: string
  le_date :: string
  le_message :: string
  le_author_name :: string
  le_author_email :: string

record DiffResultFile =
  df_file :: string
  df_insertions :: "nat option"
  df_deletions :: "nat option"

record SimpleGit =
  git_tags :: "string + (string option \<times> string list)"
  git_log :: "string \<Rightarrow> string \<Rightarrow> string + LogEntry list"
  git_diffSummary :: "string \<Rightarrow> string + DiffResultFile list"
  git_diff :: "string \<Rightarrow> string \<Rightarrow> string + string"

text \<open>\<open>getLatestTag\<close>: \<open>tags.latest || tags.all[0] || null\<close>, and \<open>null\<close> with a warning on failure.\<close>

definition getLatestTag :: "SimpleGit \<Rightarrow> event list \<times> string option" where
  "getLatestTag git =
     (case git_tags git of
        Inr (latest, all) \<Rightarrow>
          ([], if truthy latest then latest
               else (case all of [] \<Rightarrow> None | t # _ \<Rightarrow> (if t \<noteq> [] then Some t else None)))
      | Inl e \<Rightarrow> ([Warn (''Failed to get latest tag: '' @ e)], None))"

text \<open>The state of the loop over \<open>diffSummary.files\<close> in \<open>getChangesBetween\<close>.\<close>

record loop_state =
  ls_files :: "GitChange list"
  ls_totalInsertions :: nat
  ls_totalDeletions :: nat
  ls_trace :: "event list"

definition range_of :: "string \<Rightarrow> string \<Rightarrow> string" where
  "range_of f t = f @ ''..'' @ t"

definition file_step :: "SimpleGit \<Rightarrow> string \<Rightarrow> loop_state \<Rightarrow> DiffResultFile \<Rightarrow> loop_state" where
  "file_step git rng st f =
     (case git_diff git rng (df_file f) of
        Inr d \<Rightarrow>
          (let ins = or0 (df_insertions f); del = or0 (df_deletions f) in
           st\<lparr>ls_files := ls_files st @
                 [\<lparr>fileName = df_file f, insertions = ins, deletions = del, diff = d\<rparr>],
              ls_totalInsertions := ls_totalInsertions st + ins,
              ls_totalDeletions := ls_totalDeletions st + del\<rparr>)
      | Inl e \<Rightarrow>
          (let ins = or0 (df_insertions f); del = or0 (df_deletions f) in
           st\<lparr>ls_trace := ls_trace st @
                 [Warn (''Failed to get diff for '' @ df_file f @ '': '' @ e)],
              ls_files := ls_files st @
                 [\<lparr>fileName = df_file f, insertions = ins, deletions = del, diff = ''''\<rparr>]\<rparr>))"

definition to_commit :: "LogEntry \<Rightarrow> GitCommit" where
  "to_commit c = \<lparr>hash = le_hash c, date = le_date c, message = le_message c,
                  author = le_author_name c, email = le_author_email c\<rparr>"

definition getChangesBetween ::
  "SimpleGit \<Rightarrow> string \<Rightarrow> string \<Rightarrow> event list \<times> (string + AnalyzedChanges)" where
  "getChangesBetween git from to =
     (case git_log git from to of
        Inl e \<Rightarrow> ([], Inl (''Failed to analyze git changes: '' @ e))
      | Inr entries \<Rightarrow>
          (case git_diffSummary git (range_of from to) of
             Inl e \<Rightarrow> ([], Inl (''Failed to analyze git changes: '' @ e))
           | Inr summary \<Rightarrow>
               (let st = foldl (file_step git (range_of from to))
                           \<lparr>ls_files = [], ls_totalInsertions = 0, ls_totalDeletions = 0,
                            ls_trace = []\<rparr> summary
                in (ls_trace st,
                    Inr \<lparr>commits = map to_commit entries, files = ls_files st,
                         totalInsertions = ls_totalInsertions st,
                         totalDeletions = ls_totalDeletions st,
                         fromTag = from, toRef = to\<rparr>))))"

text \<open>The sums that the invariant of a ChangeSet compares the totals with.\<close>

definition sum_insertions :: "GitChange list \<Rightarrow> nat" where
  "sum_insertions fs = sum_list (map insertions fs)"

definition sum_deletions :: "GitChange list \<Rightarrow> nat" where
  "sum_deletions fs = sum_list (map deletions fs)"

section \<open>claude-client.ts\<close>

record ClaudeClientConfig =
  anthropicApiKey :: "string option"
  useBedrock :: "bool option"
  useVertex :: "bool option"
  bedrockRegion :: "string option"
  vertexProjectId :: "string option"
  vertexRegion :: "string option"
  model :: string

text \<open>Truthiness of an optional boolean.\<close>

definition flag :: "bool option \<Rightarrow> bool" where
  "flag b = (b = Some True)"

text \<open>
  \<open>createClaudeClient\<close>: the three tests in the order of the source. \<open>Inl\<close> carries
  the message of the thrown \<open>Error\<close>.
\<close>

definition createClaudeClient :: "ClaudeClientConfig \<Rightarrow> string + ClaudeClient" where
  "createClaudeClient config =
     (if flag (useBedrock config)
      then Inr (BedrockClaudeClient (or_default (bedrockRegion config) ''us-east-1'') (model config))
      else if flag (useVertex config)
      then (case vertexProjectId config of
              None \<Rightarrow> Inl ''Vertex AI project ID is required when using Vertex AI''
            | Some p \<Rightarrow>
                (if p = [] then Inl ''Vertex AI project ID is required when using Vertex AI''
                 else Inr (VertexClaudeClient p (or_default (vertexRegion config) ''us-central1'')
                             (model config))))
      else (case anthropicApiKey config of
              None \<Rightarrow> Inl ''Anthropic API key is required when not using Bedrock or Vertex AI''
            | Some k \<Rightarrow>
                (if k = []
                 then Inl ''Anthropic API key is required when not using Bedrock or Vertex AI''
                 else Inr (AnthropicClaudeClient k (model config)))))"

text \<open>
  What a provider answers to one request: a failure of the call, a text, or an answer
  of another shape (a block that is not text, a body without the text field, no
  candidate).
\<close>

datatype reply = TextReply string | OtherReply

text \<open>
  \<open>generateResponse\<close> of the three clients. Each wraps whatever its \<open>try\<close> block
  throws, its own \<open>Error\<close> included, into a new message.
\<close>

fun generateResponse ::
  "(ClaudeClient \<Rightarrow> string \<Rightarrow> string + reply) \<Rightarrow> ClaudeClient \<Rightarrow> string \<Rightarrow> string + string" where
  "generateResponse send (AnthropicClaudeClient k m) prompt =
     (case send (AnthropicClaudeClient k m) prompt of
        Inl e \<Rightarrow> Inl (''Failed to generate Claude response: '' @ e)
      | Inr (TextReply t) \<Rightarrow> Inr t
      | Inr OtherReply \<Rightarrow>
          Inl (''Failed to generate Claude response: '' @
               ''Error: Unexpected response type from Claude''))"
| "generateResponse send (BedrockClaudeClient r m) prompt =
     (case send (BedrockClaudeClient r m) prompt of
        Inl e \<Rightarrow> Inl (''Failed to generate Bedrock response: '' @ e)
      | Inr (TextReply t) \<Rightarrow>
          (if t \<noteq> [] then Inr t
           else Inl (''Failed to generate Bedrock response: '' @
                     ''Error: Unexpected response format from Bedrock''))
      | Inr OtherReply \<Rightarrow>
          Inl (''Failed to generate Bedrock response: '' @
               ''Error: Unexpected response format from Bedrock''))"
| "generateResponse send (VertexClaudeClient p r m) prompt =
     (case send (VertexClaudeClient p r m) prompt of
        Inl e \<Rightarrow> Inl (''Failed to generate Vertex AI response: '' @ e)
      | Inr (TextReply t) \<Rightarrow>
          (if t \<noteq> [] then Inr t
           else Inl (''Failed to generate Vertex AI response: '' @
                     ''Error: No content in Vertex AI response''))
      | Inr OtherReply \<Rightarrow>
          Inl (''Failed to generate Vertex AI response: '' @
               ''Error: No content in Vertex AI response''))"

section \<open>changelog-generator.ts\<close>

subsection \<open>buildPrompt\<close>

definition lf :: string where
  "lf = [CHR 0x0A]"

definition commitSummary :: "GitCommit list \<Rightarrow> string" where
  "commitSummary cs =
     join (map (\<lambda>c. ''- '' @ substring0 8 (hash c) @ '': '' @ message c @ '' ('' @ author c @ '')'') cs)
          bsn"

definition fileChanges :: "GitChange list \<Rightarrow> string" where
  "fileChanges fs =
     join (map (\<lambda>f. ''- '' @ fileName f @ '': +'' @ toString (insertions f) @ '' -'' @
                     toString (deletions f)) fs)
          bsn"

text \<open>The files whose diff is sampled: \<open>filter\<close>, then \<open>slice(0, 5)\<close>.\<close>

definition sampledFiles :: "GitChange list \<Rightarrow> GitChange list" where
  "sampledFiles fs = take 5 (filter (\<lambda>f. insertions f + deletions f > 5) fs)"

text \<open>One sample: the heading with the file name and the fenced diff text.\<close>

definition diffSample :: "GitChange \<Rightarrow> string" where
  "diffSample f =
     ''### '' @ fileName f @ bsn @ [bq, bq, bq] @ ''diff'' @ bsn @
     substring0 1000 (diff f) @ bsn @ [bq, bq, bq]"

definition significantDiffs :: "GitChange list \<Rightarrow> string" where
  "significantDiffs fs = join (map diffSample (sampledFiles fs)) (bsn @ bsn)"

text \<open>The interpolation that emits the sample section, or the empty string.\<close>

definition sampleSection :: "GitChange list \<Rightarrow> string" where
  "sampleSection fs =
     (if significantDiffs fs \<noteq> [] then ''## Sample Code Changes'' @ bsn @ significantDiffs fs
      else [])"

definition promptHead :: "AnalyzedChanges \<Rightarrow> string" where
  "promptHead changes =
     ''You are a technical writer creating a changelog for a software project. Analyze the following git changes and generate a well-structured changelog entry.'' @ lf @
     lf @
     ''## Change Summary'' @ lf @
     ''- **From:** '' @ fromTag changes @ lf @
     ''- **To:** '' @ toRef changes @ lf @
     ''- **Commits:** '' @ toString (length (commits changes)) @ lf @
     ''- **Files changed:** '' @ toString (length (files changes)) @ lf @
     ''- **Total changes:** +'' @ toString (totalInsertions changes) @ '' -'' @
        toString (totalDeletions changes) @ lf @
     lf @
     ''## Commits'' @ lf @
     commitSummary (commits changes) @ lf @
     lf @
     ''## File Changes'' @ lf @
     fileChanges (files changes) @ lf @
     lf"

definition promptInstructions :: string where
  "promptInstructions =
     lf @
     lf @
     ''## Instructions'' @ lf @
     ''Generate a changelog entry following these guidelines:'' @ lf @
     lf @
     ''1. **Categorize changes** using these standard categories:'' @ lf @
     ''   - **Added**: New features'' @ lf @
     ''   - **Changed**: Changes in existing functionality'' @ lf @
     ''   - **Deprecated**: Soon-to-be removed features'' @ lf @
     ''   - **Removed**: Removed features'' @ lf @
     ''   - **Fixed**: Bug fixes'' @ lf @
     ''   - **Security**: Security improvements'' @ lf @
     lf @
     ''2. **Write clear, user-focused descriptions** that explain:'' @ lf @
     ''   - What changed from a user's perspective'' @ lf @
     ''   - Why it matters'' @ lf @
     ''   - Any breaking changes or migration notes'' @ lf @
     lf @
     ''3. **Use consistent formatting**:'' @ lf @
     ''   - Each item should be a concise bullet point'' @ lf @
     ''   - Start with an action verb when possible'' @ lf @
     ''   - Reference issue/PR numbers if visible in commit messages'' @ lf @
     lf @
     ''4. **Focus on semantic meaning** rather than technical implementation details'' @ lf @
     lf @
     ''5. **Group related changes** together logically'' @ lf @
     lf @
     ''Please generate a changelog entry in markdown format with appropriate sections and bullet points. Do not include version numbers or dates - I'll add those separately.'' @ lf @
     lf @
     ''Return only the changelog content without any explanatory text or metadata.''"

definition buildPrompt :: "AnalyzedChanges \<Rightarrow> string" where
  "buildPrompt changes = promptHead changes @ sampleSection (files changes) @ promptInstructions"

subsection \<open>formatAsMarkdown\<close>

text \<open>
  \<open>new Date().toISOString().split('T')[0]\<close>, from the ISO rendering of the clock.
  \<open>split\<close> with a non-empty separator never answers the empty list.
\<close>

definition isoDate :: "string \<Rightarrow> string" where
  "isoDate now = (case split now ''T'' of [] \<Rightarrow> [] | d # _ \<Rightarrow> d)"

definition formatAsMarkdown :: "string \<Rightarrow> string \<Rightarrow> string" where
  "formatAsMarkdown now content =
     (let formatted = trim content in
      if \<not> includes_str formatted ''## '' \<and> \<not> includes_str formatted ''### ''
      then ''## [Unreleased] - '' @ isoDate now @ bsn @ bsn @ formatted
      else formatted)"

subsection \<open>formatAsJson\<close>

datatype SectionType = Added | Changed | Deprecated | Removed | Fixed | Security

text \<open>The lower-case string that \<open>sectionMatch[1].toLowerCase()\<close> stores as the type.\<close>

fun type_name :: "SectionType \<Rightarrow> string" where
  "type_name Added = ''added''"
| "type_name Changed = ''changed''"
| "type_name Deprecated = ''deprecated''"
| "type_name Removed = ''removed''"
| "type_name Fixed = ''fixed''"
| "type_name Security = ''security''"

record ChangelogSection =
  type :: SectionType
  items :: "string list"

text \<open>
  Matching under the flag \<open>i\<close>: a character matches a letter of the pattern when both
  have the same upper case.
\<close>

definition toUpperCase_char :: "char \<Rightarrow> char" where
  "toUpperCase_char c =
     (case map_of (zip ''abcdefghijklmnopqrstuvwxyz'' ''ABCDEFGHIJKLMNOPQRSTUVWXYZ'') c of
        Some u \<Rightarrow> u | None \<Rightarrow> c)"

fun starts_ci :: "string \<Rightarrow> string \<Rightarrow> bool" where
  "starts_ci [] s = True"
| "starts_ci (p # ps) [] = False"
| "starts_ci (p # ps) (c # cs) = (toUpperCase_char c = toUpperCase_char p \<and> starts_ci ps cs)"

text \<open>The group \<open>(Added|Changed|Deprecated|Removed|Fixed|Security)\<close>, alternatives in order.\<close>

definition match_group :: "string \<Rightarrow> SectionType option" where
  "match_group s =
     (if starts_ci ''Added'' s then Some Added
      else if starts_ci ''Changed'' s then Some Changed
      else if starts_ci ''Deprecated'' s then Some Deprecated
      else if starts_ci ''Removed'' s then Some Removed
      else if starts_ci ''Fixed'' s then Some Fixed
      else if starts_ci ''Security'' s then Some Security
      else None)"

text \<open>
  The part \<open>s*\<close> of the header pattern, then the group: the star is greedy and gives
  characters back when the group does not match after them. Under the flag \<open>i\<close> it
  takes \<open>s\<close> and \<open>S\<close>.
\<close>

fun match_s_star_group :: "string \<Rightarrow> SectionType option" where
  "match_s_star_group [] = match_group []"
| "match_s_star_group (c # cs) =
     (if toUpperCase_char c = CHR ''S''
      then (case match_s_star_group cs of
              Some t \<Rightarrow> Some t
            | None \<Rightarrow> match_group (c # cs))
      else match_group (c # cs))"

text \<open>
  The header pattern as the source has it: \<open>^##\<close>, a doubled backslash (one backslash
  character), \<open>s*\<close>, the group; flag \<open>i\<close>. The result is the type of the section the
  match opens.
\<close>

definition sectionMatch :: "string \<Rightarrow> SectionType option" where
  "sectionMatch trimmed =
     (case trimmed of
        a # b # c # rest \<Rightarrow>
          (if a = CHR ''#'' \<and> b = CHR ''#'' \<and> c = bs then match_s_star_group rest else None)
      | _ \<Rightarrow> None)"

text \<open>
  The bullet pattern as the source has it: \<open>^[-*]\<close>, a doubled backslash, \<open>s+\<close>; no
  flag. The result is the line with the match removed, as \<open>replace\<close> leaves it.
\<close>

definition bulletMatch :: "string \<Rightarrow> string option" where
  "bulletMatch trimmed =
     (case trimmed of
        a # b # c # rest \<Rightarrow>
          (if (a = CHR ''-'' \<or> a = CHR ''*'') \<and> b = bs \<and> c = CHR ''s''
           then Some (dropWhile (\<lambda>x. x = CHR ''s'') rest) else None)
      | _ \<Rightarrow> None)"

text \<open>The state of the loop over the lines: \<open>sections\<close> and \<open>currentSection\<close>.\<close>

type_synonym parse_state = "ChangelogSection list \<times> ChangelogSection option"

definition line_step :: "parse_state \<Rightarrow> string \<Rightarrow> parse_state" where
  "line_step st line =
     (let trimmed = trim line in
      case sectionMatch trimmed of
        Some t \<Rightarrow>
          ((case snd st of Some cur \<Rightarrow> fst st @ [cur] | None \<Rightarrow> fst st),
           Some \<lparr>type = t, items = []\<rparr>)
      | None \<Rightarrow>
          (case snd st of
             Some cur \<Rightarrow>
               (case bulletMatch trimmed of
                  Some item \<Rightarrow> (fst st, Some (cur\<lparr>items := items cur @ [item]\<rparr>))
                | None \<Rightarrow> st)
           | None \<Rightarrow> st))"

text \<open>After the loop the open section, if any, is pushed.\<close>

definition close_sections :: "parse_state \<Rightarrow> ChangelogSection list" where
  "close_sections st = (case snd st of Some cur \<Rightarrow> fst st @ [cur] | None \<Rightarrow> fst st)"

definition parse_lines :: "string list \<Rightarrow> ChangelogSection list" where
  "parse_lines ls = close_sections (foldl line_step ([], None) ls)"

definition parse_sections :: "string \<Rightarrow> ChangelogSection list" where
  "parse_sections content = parse_lines (split content bsn)"

text \<open>The values handed to \<open>JSON.stringify\<close>, and \<open>JSON.stringify(v, null, 2)\<close>.\<close>

datatype json = JString string | JNumber nat | JArray "json list" | JObject "(string \<times> json) list"

definition hex_digit :: "nat \<Rightarrow> char" where
  "hex_digit d =
     (if d < 10 then digit_char d
      else if d = 10 then CHR ''a'' else if d = 11 then CHR ''b'' else if d = 12 then CHR ''c''
      else if d = 13 then CHR ''d'' else if d = 14 then CHR ''e'' else CHR ''f'')"

definition quote_char :: "char \<Rightarrow> string" where
  "quote_char c =
     (if c = CHR 0x08 then [bs, CHR ''b'']
      else if c = CHR 0x09 then [bs, CHR ''t'']
      else if c = CHR 0x0A then [bs, CHR ''n'']
      else if c = CHR 0x0C then [bs, CHR ''f'']
      else if c = CHR 0x0D then [bs, CHR ''r'']
      else if c = CHR 0x22 then [bs, CHR 0x22]
      else if c = bs then [bs, bs]
      else if (of_char c :: nat) < 32
      then [bs, CHR ''u'', CHR ''0'', CHR ''0'', hex_digit ((of_char c :: nat) div 16),
            hex_digit ((of_char c :: nat) mod 16)]
      else [c])"

definition quote :: "string \<Rightarrow> string" where
  "quote s = [CHR 0x22] @ concat (map quote_char s) @ [CHR 0x22]"

fun stringify :: "string \<Rightarrow> json \<Rightarrow> string" where
  "stringify ind (JString s) = quote s"
| "stringify ind (JNumber n) = toString n"
| "stringify ind (JArray xs) =
     (if xs = [] then ''[]''
      else ''['' @ lf @ ind @ ''  '' @
           join (map (stringify (ind @ ''  '')) xs) ('','' @ lf @ ind @ ''  '') @
           lf @ ind @ '']'')"
| "stringify ind (JObject kvs) =
     (if kvs = [] then ''{}''
      else ''{'' @ lf @ ind @ ''  '' @
           join (map (\<lambda>(k, v). quote k @ '': '' @ stringify (ind @ ''  '') v) kvs)
                ('','' @ lf @ ind @ ''  '') @
           lf @ ind @ ''}'')"

definition section_json :: "ChangelogSection \<Rightarrow> json" where
  "section_json s =
     JObject [(''type'', JString (type_name (type s))), (''items'', JArray (map JString (items s)))]"

text \<open>The document of the \<open>try\<close> block.\<close>

definition changelog_json :: "string \<Rightarrow> string \<Rightarrow> AnalyzedChanges \<Rightarrow> json" where
  "changelog_json now content changes =
     JObject [(''date'', JString (isoDate now)),
              (''sections'', JArray (map section_json (parse_sections content))),
              (''summary'', JString (toString (length (commits changes)) @ '' commits, '' @
                                     toString (length (files changes)) @ '' files changed''))]"

text \<open>The document of the \<open>catch\<close> block.\<close>

definition fallback_json :: "string \<Rightarrow> string \<Rightarrow> AnalyzedChanges \<Rightarrow> json" where
  "fallback_json now content changes =
     JObject [(''date'', JString (isoDate now)),
              (''content'', JString content),
              (''metadata'',
               JObject [(''commits'', JNumber (length (commits changes))),
                        (''files'', JNumber (length (files changes))),
                        (''insertions'', JNumber (totalInsertions changes)),
                        (''deletions'', JNumber (totalDeletions changes)),
                        (''fromTag'', JString (fromTag changes)),
                        (''toRef'', JString (toRef changes))])]"

text \<open>
  The \<open>try\<close> block of \<open>formatAsJson\<close>: \<open>Inl\<close> would be an exception thrown in it.
  \<open>split\<close>, \<open>trim\<close>, \<open>match\<close>, \<open>replace\<close>, \<open>push\<close> and \<open>JSON.stringify\<close> of a
  tree of strings, numbers, arrays and plain objects are defined on every string, so the
  block has no throwing branch.
\<close>

definition formatAsJson_try :: "string \<Rightarrow> string \<Rightarrow> AnalyzedChanges \<Rightarrow> string + string" where
  "formatAsJson_try now content changes = Inr (stringify [] (changelog_json now content changes))"

definition formatAsJson :: "string \<Rightarrow> string \<Rightarrow> AnalyzedChanges \<Rightarrow> string" where
  "formatAsJson now content changes =
     (case formatAsJson_try now content changes of
        Inr s \<Rightarrow> s
      | Inl e \<Rightarrow> stringify [] (fallback_json now content changes))"

subsection \<open>generateChangelog\<close>

definition generateChangelog ::
  "(ClaudeClient \<Rightarrow> string \<Rightarrow> string + reply) \<Rightarrow> string \<Rightarrow> ClaudeClient \<Rightarrow> AnalyzedChanges \<Rightarrow>
     string \<Rightarrow> event list \<times> (string + string)" where
  "generateChangelog send now client changes format =
     (let prompt = buildPrompt changes in
      ([BuildPrompt changes, GenerateResponse client prompt],
       case generateResponse send client prompt of
         Inl e \<Rightarrow> Inl e
       | Inr content \<Rightarrow>
           Inr (if format = ''json'' then formatAsJson now content changes
                else formatAsMarkdown now content)))"

section \<open>index.ts\<close>

text \<open>
  What a run reads from outside: the inputs of the action (\<open>core.getInput\<close> answers the
  empty string for an input that is not set), two variables of the process environment,
  the repository, the provider, the clock and the file system (\<open>writeFile\<close> answers
  the message of its failure, if it fails).
\<close>

record Env =
  getInput :: "string \<Rightarrow> string"
  env_GITHUB_TOKEN :: "string option"
  env_ANTHROPIC_API_KEY :: "string option"
  env_git :: SimpleGit
  env_send :: "ClaudeClient \<Rightarrow> string \<Rightarrow> string + reply"
  env_clock :: string
  env_writeFile :: "string \<Rightarrow> string \<Rightarrow> string option"

text \<open>\<open>core.getInput(name) || alt\<close>.\<close>

definition input_or :: "Env \<Rightarrow> string \<Rightarrow> string option \<Rightarrow> string option" where
  "input_or e name alt = (if getInput e name \<noteq> [] then Some (getInput e name) else alt)"

definition config_of :: "Env \<Rightarrow> ClaudeClientConfig" where
  "config_of e =
     \<lparr>anthropicApiKey = input_or e ''anthropic_api_key'' (env_ANTHROPIC_API_KEY e),
      useBedrock = Some (getInput e ''use_bedrock'' = ''true''),
      useVertex = Some (getInput e ''use_vertex'' = ''true''),
      bedrockRegion = input_or e ''bedrock_region'' (Some ''us-east-1''),
      vertexProjectId = Some (getInput e ''vertex_project_id''),
      vertexRegion = input_or e ''vertex_region'' (Some ''us-central1''),
      model = or_default (input_or e ''model'' None) ''claude-3-5-sonnet-20241022''\<rparr>"

text \<open>The tail of \<open>run\<close> once the changelog is there: the write and the three outputs.\<close>

definition write_and_output :: "Env \<Rightarrow> AnalyzedChanges \<Rightarrow> string \<Rightarrow> event list \<times> (string + unit)" where
  "write_and_output e changes changelog =
     (let outputFile = or_default (input_or e ''output_file'' None) ''CHANGELOG.md'';
          outputs = [SetOutput ''changelog'' changelog,
                     SetOutput ''changelog_file'' outputFile,
                     SetOutput ''changes_count'' (toString (length (commits changes)))]
      in if outputFile \<noteq> [] \<and> outputFile \<noteq> ''stdout''
         then (case env_writeFile e outputFile changelog of
                 Some err \<Rightarrow> ([WriteFile outputFile changelog], Inl err)
               | None \<Rightarrow>
                   ([WriteFile outputFile changelog,
                     Info (''Changelog written to '' @ outputFile)] @ outputs, Inr ()))
         else (outputs, Inr ()))"

text \<open>The part of \<open>run\<close> after the analysis of the changes.\<close>

definition after_analysis :: "Env \<Rightarrow> AnalyzedChanges \<Rightarrow> event list \<times> (string + unit)" where
  "after_analysis e changes =
     (if commits changes = []
      then ([Info ''No changes found between the specified references'',
             SetOutput ''changelog'' ''No changes found'',
             SetOutput ''changelog_file'' '''',
             SetOutput ''changes_count'' ''0''], Inr ())
      else
        (let found = [Info (''Found '' @ toString (length (commits changes)) @
                            '' commits with changes'')]
         in case createClaudeClient (config_of e) of
              Inl msg \<Rightarrow> (found, Inl msg)
            | Inr claudeClient \<Rightarrow>
                (let format = or_default (input_or e ''format'' None) ''markdown'';
                     (t, r) = generateChangelog (env_send e) (env_clock e) claudeClient changes format
                 in case r of
                      Inl msg \<Rightarrow> (found @ t, Inl msg)
                    | Inr changelog \<Rightarrow>
                        (let (t', r') = write_and_output e changes changelog
                         in (found @ t @ [Info ''Changelog generated successfully''] @ t', r')))))"

text \<open>\<open>fromTag || await gitAnalyzer.getLatestTag()\<close> and \<open>core.getInput('to_ref') || 'HEAD'\<close>.\<close>

definition actualFromTag :: "Env \<Rightarrow> event list \<times> string option" where
  "actualFromTag e =
     (if getInput e ''from_tag'' \<noteq> [] then ([], Some (getInput e ''from_tag''))
      else getLatestTag (env_git e))"

definition toRef_input :: "Env \<Rightarrow> string" where
  "toRef_input e = or_default (input_or e ''to_ref'' None) ''HEAD''"

text \<open>
  The \<open>try\<close> block of \<open>run\<close>: the trace, and \<open>Inl\<close> the message of what it throws.
  Where the tag is truthy, \<open>or_default tag []\<close> is the tag itself.
\<close>

definition run_try :: "Env \<Rightarrow> event list \<times> (string + unit)" where
  "run_try e =
     (let githubToken = input_or e ''github_token'' (env_GITHUB_TOKEN e)
      in if \<not> truthy githubToken then ([], Inl ''GitHub token is required'')
         else
           (let start = [Info ''Starting changelog generation...''];
                (t1, tag) = actualFromTag e
            in if \<not> truthy tag
               then (start @ t1, Inl ''No from tag specified and no tags found in repository'')
               else
                 (let t2 = [Info (''Analyzing changes from '' @ or_default tag [] @ '' to '' @
                                  toRef_input e)];
                      (t3, analysed) = getChangesBetween (env_git e) (or_default tag []) (toRef_input e)
                  in case analysed of
                       Inl msg \<Rightarrow> (start @ t1 @ t2 @ t3, Inl msg)
                     | Inr changes \<Rightarrow>
                         (let (t4, r) = after_analysis e changes
                          in (start @ t1 @ t2 @ t3 @ t4, r)))))"

text \<open>\<open>run\<close>: whatever the block throws is reported once, by \<open>core.setFailed\<close>.\<close>

definition run :: "Env \<Rightarrow> event list" where
  "run e =
     (case run_try e of
        (t, Inr u) \<Rightarrow> t
      | (t, Inl msg) \<Rightarrow> t @ [SetFailed (''Action failed: '' @ msg)])"

text \<open>Reading a trace: the outputs set, the last value of each name; the calls made.\<close>

fun outputs_of :: "event list \<Rightarrow> (string \<rightharpoonup> string)" where
  "outputs_of [] = Map.empty"
| "outputs_of (SetOutput k v # es) = (if k \<in> dom (outputs_of es) then outputs_of es
                                        else (outputs_of es)(k \<mapsto> v))"
| "outputs_of (_ # es) = outputs_of es"

fun is_backend_call :: "event \<Rightarrow> bool" where
  "is_backend_call (GenerateResponse c p) = True"
| "is_backend_call _ = False"

fun is_prompt_build :: "event \<Rightarrow> bool" where
  "is_prompt_build (BuildPrompt c) = True"
| "is_prompt_build _ = False"

fun is_file_write :: "event \<Rightarrow> bool" where
  "is_file_write (WriteFile p c) = True"
| "is_file_write _ = False"

fun is_failure :: "event \<Rightarrow> bool" where
  "is_failure (SetFailed m) = True"
| "is_failure _ = False"

fun is_output :: "event \<Rightarrow> bool" where
  "is_output (SetOutput k v) = True"
| "is_output _ = False"

text \<open>
  The trace of a run up to the end of the analysis, and the trace that \<open>run\<close> makes of
  what its \<open>try\<close> block leaves: the events, then the failure if the block threw.
  \<open>is_log\<close> holds of the events that only write to the log.
\<close>

definition prelude :: "Env \<Rightarrow> event list" where
  "prelude e =
     [Info ''Starting changelog generation...''] @ fst (actualFromTag e) @
     [Info (''Analyzing changes from '' @ or_default (snd (actualFromTag e)) [] @ '' to '' @
            toRef_input e)] @
     fst (getChangesBetween (env_git e) (or_default (snd (actualFromTag e)) []) (toRef_input e))"

definition report :: "event list \<times> (string + unit) \<Rightarrow> event list" where
  "report r = (case r of (t, Inr u) \<Rightarrow> t | (t, Inl msg) \<Rightarrow> t @ [SetFailed (''Action failed: '' @ msg)])"

fun is_log :: "event \<Rightarrow> bool" where
  "is_log (Info m) = True"
| "is_log (Warn m) = True"
| "is_log _ = False"

text \<open>
  The condition of the specification for markdown mode, read as widely as its words
  allow: some line of the text begins with a heading marker. It is compared with the
  test of \<open>formatAsMarkdown\<close>.
\<close>

definition claimed_heading_line_present :: "string \<Rightarrow> bool" where
  "claimed_heading_line_present text = list_ex (\<lambda>l. prefix ''#'' l) (split text lf)"

text \<open>
  The serialized document of a parse that found no section, written out.
\<close>

definition empty_sections_document :: "string \<Rightarrow> AnalyzedChanges \<Rightarrow> string" where
  "empty_sections_document now changes =
     ''{'' @ lf @
     ''  '' @ quote ''date'' @ '': '' @ quote (isoDate now) @ '','' @ lf @
     ''  '' @ quote ''sections'' @ '': []'' @ '','' @ lf @
     ''  '' @ quote ''summary'' @ '': '' @
        quote (toString (length (commits changes)) @ '' commits, '' @
               toString (length (files changes)) @ '' files changed'') @ lf @
     ''}''"

section \<open>Concrete inputs\<close>

text \<open>A repository whose summary lists one file, \<open>a.ts\<close> with 3 insertions and 1 deletion.\<close>

definition one_file_summary :: "DiffResultFile list" where
  "one_file_summary = [\<lparr>df_file = ''a.ts'', df_insertions = Some 3, df_deletions = Some 1\<rparr>]"

definition one_commit_log :: "LogEntry list" where
  "one_commit_log = [\<lparr>le_hash = ''abcdef1234'', le_date = ''2024-01-01'',
                      le_message = ''fix: null pointer'', le_author_name = ''A'',
                      le_author_email = ''a@example.org''\<rparr>]"

definition git_ok :: SimpleGit where
  "git_ok = \<lparr>git_tags = Inr (Some ''v1.0.0'', [''v1.0.0'']),
            git_log = (\<lambda>f t. Inr one_commit_log),
            git_diffSummary = (\<lambda>r. Inr one_file_summary),
            git_diff = (\<lambda>r f. Inr ''+x'')\<rparr>"

definition git_diff_fails :: SimpleGit where
  "git_diff_fails = git_ok\<lparr>git_diff := (\<lambda>r f. Inl ''Error: maxBuffer exceeded'')\<rparr>"

text \<open>A configuration with both flags set, and the inputs and environments of four runs.\<close>

definition both_flags_config :: ClaudeClientConfig where
  "both_flags_config =
     \<lparr>anthropicApiKey = None, useBedrock = Some True, useVertex = Some True,
      bedrockRegion = None, vertexProjectId = None, vertexRegion = None,
      model = ''claude-3-5-sonnet-20241022''\<rparr>"

definition inputs_minimal :: "string \<Rightarrow> string" where
  "inputs_minimal name =
     (if name = ''github_token'' then ''ghs_token''
      else if name = ''from_tag'' then ''v1.0.0'' else [])"

definition git_no_commits :: SimpleGit where
  "git_no_commits = git_ok\<lparr>git_log := (\<lambda>f t. Inr []), git_diffSummary := (\<lambda>r. Inr [])\<rparr>"

definition send_fixed :: "ClaudeClient \<Rightarrow> string \<Rightarrow> string + reply" where
  "send_fixed c p = Inr (TextReply ''- Corrected crash on null input'')"

definition env_zero_commits :: Env where
  "env_zero_commits =
     \<lparr>getInput = inputs_minimal, env_GITHUB_TOKEN = None, env_ANTHROPIC_API_KEY = Some ''sk-key'',
      env_git = git_no_commits, env_send = send_fixed,
      env_clock = ''2024-05-01T10:00:00.000Z'', env_writeFile = (\<lambda>p c. None)\<rparr>"

definition inputs_vertex_no_project :: "string \<Rightarrow> string" where
  "inputs_vertex_no_project name =
     (if name = ''github_token'' then ''ghs_token''
      else if name = ''from_tag'' then ''v1.0.0''
      else if name = ''use_vertex'' then ''true'' else [])"

definition env_vertex_no_project :: Env where
  "env_vertex_no_project =
     \<lparr>getInput = inputs_vertex_no_project, env_GITHUB_TOKEN = None,
      env_ANTHROPIC_API_KEY = None, env_git = git_ok, env_send = send_fixed,
      env_clock = ''2024-05-01T10:00:00.000Z'', env_writeFile = (\<lambda>p c. None)\<rparr>"

definition two_commit_log :: "LogEntry list" where
  "two_commit_log =
     [\<lparr>le_hash = ''abcdef1234'', le_date = ''2024-01-02'', le_message = ''fix: null pointer'',
       le_author_name = ''A'', le_author_email = ''a@example.org''\<rparr>,
      \<lparr>le_hash = ''0123456789'', le_date = ''2024-01-01'', le_message = ''feat: export'',
       le_author_name = ''B'', le_author_email = ''b@example.org''\<rparr>]"

definition inputs_stdout :: "string \<Rightarrow> string" where
  "inputs_stdout name =
     (if name = ''github_token'' then ''ghs_token''
      else if name = ''from_tag'' then ''v1.0.0''
      else if name = ''output_file'' then ''stdout'' else [])"

definition env_two_commits :: Env where
  "env_two_commits =
     \<lparr>getInput = inputs_stdout, env_GITHUB_TOKEN = None,
      env_ANTHROPIC_API_KEY = Some ''sk-key'',
      env_git = git_ok\<lparr>git_log := (\<lambda>f t. Inr two_commit_log)\<rparr>, env_send = send_fixed,
      env_clock = ''2024-05-01T10:00:00.000Z'', env_writeFile = (\<lambda>p c. None)\<rparr>"

definition changes_two_commits :: AnalyzedChanges where
  "changes_two_commits =
     \<lparr>commits = map to_commit two_commit_log,
      files = [\<lparr>fileName = ''a.ts'', insertions = 3, deletions = 1, diff = ''+x''\<rparr>],
      totalInsertions = 3, totalDeletions = 1, fromTag = ''v1.0.0'', toRef = ''HEAD''\<rparr>"

text \<open>Files with a diff of 1500 characters, a header line, a text with no header, a clock.\<close>

definition long_diff :: string where
  "long_diff = replicate 1500 (CHR ''+'')"

definition file_with :: "string \<Rightarrow> nat \<Rightarrow> nat \<Rightarrow> GitChange" where
  "file_with name i d = \<lparr>fileName = name, insertions = i, deletions = d, diff = long_diff\<rparr>"

definition seven_files :: "GitChange list" where
  "seven_files =
     [file_with ''a.ts'' 6 0, file_with ''b.ts'' 3 1, file_with ''c.ts'' 0 9, file_with ''d.ts'' 4 4,
      file_with ''e.ts'' 10 10, file_with ''f.ts'' 7 0, file_with ''g.ts'' 20 1]"

definition small_files :: "GitChange list" where
  "small_files = [file_with ''a.ts'' 3 1, file_with ''b.ts'' 5 0]"

definition header_line_fixed :: string where
  "header_line_fixed = ''##'' @ [bs] @ ''Fixed''"

definition bullet_line_item :: string where
  "bullet_line_item = ''-'' @ [bs] @ ''sitem''"

definition open_added :: ChangelogSection where
  "open_added = \<lparr>type = Added, items = [''x'']\<rparr>"

definition garbled :: string where
  "garbled = ''%% not a changelog %%''"

definition clock0 :: string where
  "clock0 = ''2024-05-01T10:00:00.000Z''"

section \<open>Properties of the history extractor\<close>

lemma loop_totals_when_every_diff_succeeds:
  assumes "\<forall>f \<in> set summary. \<exists>d. git_diff git rng (df_file f) = Inr d"
    and "ls_totalInsertions st = sum_insertions (ls_files st)"
    and "ls_totalDeletions st = sum_deletions (ls_files st)"
  shows "ls_totalInsertions (foldl (file_step git rng) st summary)
           = sum_insertions (ls_files (foldl (file_step git rng) st summary))
       \<and> ls_totalDeletions (foldl (file_step git rng) st summary)
           = sum_deletions (ls_files (foldl (file_step git rng) st summary))"
  using assms
proof (induction summary arbitrary: st)
  case Nil
  then show ?case by simp
next
  case (Cons f fs)
  from Cons.prems(1) obtain d where d: "git_diff git rng (df_file f) = Inr d"
    by auto
  have i: "ls_totalInsertions (file_step git rng st f)
             = sum_insertions (ls_files (file_step git rng st f))"
    using d Cons.prems(2) by (simp add: file_step_def sum_insertions_def Let_def)
  have e: "ls_totalDeletions (file_step git rng st f)
             = sum_deletions (ls_files (file_step git rng st f))"
    using d Cons.prems(3) by (simp add: file_step_def sum_deletions_def Let_def)
  from Cons.prems(1) have r: "\<forall>f \<in> set fs. \<exists>d. git_diff git rng (df_file f) = Inr d"
    by simp
  from Cons.IH [OF r i e] show ?case by simp
qed

lemma getChangesBetween_totals_when_every_diff_succeeds:
  assumes sm: "git_diffSummary g (range_of f t) = Inr summary"
    and ok: "\<forall>x \<in> set summary. \<exists>d. git_diff g (range_of f t) (df_file x) = Inr d"
    and res: "snd (getChangesBetween g f t) = Inr ch"
  shows "totalInsertions ch = sum_insertions (files ch)
       \<and> totalDeletions ch = sum_deletions (files ch)"
proof -
  define st0 where "st0 = \<lparr>ls_files = [], ls_totalInsertions = 0, ls_totalDeletions = 0,
                            ls_trace = ([] :: event list)\<rparr>"
  have i: "ls_totalInsertions st0 = sum_insertions (ls_files st0)"
    and d: "ls_totalDeletions st0 = sum_deletions (ls_files st0)"
    by (simp_all add: st0_def sum_insertions_def sum_deletions_def)
  note l = loop_totals_when_every_diff_succeeds [OF ok i d]
  from res sm have "ch = \<lparr>commits = commits ch,
        files = ls_files (foldl (file_step g (range_of f t)) st0 summary),
        totalInsertions = ls_totalInsertions (foldl (file_step g (range_of f t)) st0 summary),
        totalDeletions = ls_totalDeletions (foldl (file_step g (range_of f t)) st0 summary),
        fromTag = f, toRef = t\<rparr>"
    by (auto simp: getChangesBetween_def st0_def Let_def split: sum.splits)
  then have "totalInsertions ch = ls_totalInsertions (foldl (file_step g (range_of f t)) st0 summary)"
    and "totalDeletions ch = ls_totalDeletions (foldl (file_step g (range_of f t)) st0 summary)"
    and "files ch = ls_files (foldl (file_step g (range_of f t)) st0 summary)"
    by (metis AnalyzedChanges.select_convs(3), metis AnalyzedChanges.select_convs(4),
        metis AnalyzedChanges.select_convs(2))
  with l show ?thesis by simp
qed

text \<open>
  C1. The claim: for every ChangeSet that \<open>getChangesBetween\<close> returns, also when the
  diff of a file could not be read and the file was kept with an empty diff,
  \<open>totalInsertions\<close> is the sum of the insertions of \<open>files\<close> and \<open>totalDeletions\<close>
  the sum of the deletions. The code at a repository whose summary lists \<open>a.ts\<close>
  (3 insertions, 1 deletion) and whose diff of that file fails: the file is kept with
  its counts and an empty diff, and both totals stay 0, since the failure branch pushes
  the file without adding its counts.
\<close>

theorem getChangesBetween_totals_miss_failed_file:
  "snd (getChangesBetween git_diff_fails ''v1.0.0'' ''HEAD'') =
     Inr \<lparr>commits = map to_commit one_commit_log,
          files = [\<lparr>fileName = ''a.ts'', insertions = 3, deletions = 1, diff = ''''\<rparr>],
          totalInsertions = 0, totalDeletions = 0,
          fromTag = ''v1.0.0'', toRef = ''HEAD''\<rparr>
   \<and> sum_insertions [\<lparr>fileName = ''a.ts'', insertions = 3, deletions = 1, diff = ''''\<rparr>] = 3
   \<and> sum_deletions [\<lparr>fileName = ''a.ts'', insertions = 3, deletions = 1, diff = ''''\<rparr>] = 1"
  by (simp add: getChangesBetween_def git_diff_fails_def git_ok_def one_file_summary_def
      file_step_def or0_def sum_insertions_def sum_deletions_def Let_def)

section \<open>Properties of the backend factory\<close>

text \<open>
  C8. When \<open>useBedrock\<close> and \<open>useVertex\<close> are both set, \<open>createClaudeClient\<close>
  answers the Bedrock client, with no error, and the answer does not depend on
  \<open>vertexProjectId\<close> or \<open>anthropicApiKey\<close>.
\<close>

theorem createClaudeClient_bedrock_precedence:
  assumes "flag (useBedrock config)" and "flag (useVertex config)"
  shows "createClaudeClient config =
           Inr (BedrockClaudeClient (or_default (bedrockRegion config) ''us-east-1'') (model config))
       \<and> createClaudeClient (config\<lparr>vertexProjectId := p, anthropicApiKey := k\<rparr>) =
           createClaudeClient config"
  using assms by (simp add: createClaudeClient_def)

theorem createClaudeClient_bedrock_precedence_witness:
  "flag (useBedrock both_flags_config) \<and> flag (useVertex both_flags_config)
   \<and> createClaudeClient both_flags_config =
       Inr (BedrockClaudeClient ''us-east-1'' ''claude-3-5-sonnet-20241022'')
   \<and> createClaudeClient (both_flags_config\<lparr>vertexProjectId := Some ''proj'',
                                            anthropicApiKey := Some ''key''\<rparr>) =
       createClaudeClient both_flags_config"
proof -
  have b: "flag (useBedrock both_flags_config)" and v: "flag (useVertex both_flags_config)"
    by (simp_all add: both_flags_config_def flag_def)
  from createClaudeClient_bedrock_precedence [OF b v, where p = "Some ''proj''" and k = "Some ''key''"] b v
  show ?thesis by (simp add: both_flags_config_def or_default_def)
qed

section \<open>Properties of a run\<close>

lemma trace_getLatestTag: "\<forall>ev \<in> set (fst (getLatestTag g)). \<exists>m. ev = Warn m"
  by (auto simp: getLatestTag_def split: sum.splits prod.splits)

lemma trace_file_loop:
  "(\<forall>ev \<in> set (ls_trace st). \<exists>m. ev = Warn m) \<Longrightarrow>
   \<forall>ev \<in> set (ls_trace (foldl (file_step g rng) st summary)). \<exists>m. ev = Warn m"
proof (induction summary arbitrary: st)
  case Nil
  then show ?case by simp
next
  case (Cons f fs)
  have "\<forall>ev \<in> set (ls_trace (file_step g rng st f)). \<exists>m. ev = Warn m"
    using Cons.prems by (auto simp: file_step_def Let_def split: sum.splits)
  from Cons.IH [OF this] show ?case by simp
qed

lemma trace_getChangesBetween:
  "\<forall>ev \<in> set (fst (getChangesBetween g f t)). \<exists>m. ev = Warn m"
  using trace_file_loop [of "\<lparr>ls_files = [], ls_totalInsertions = 0, ls_totalDeletions = 0, ls_trace = []\<rparr>" g "range_of f t"]
  by (auto simp: getChangesBetween_def Let_def split: sum.splits)

lemma filter_output_warns:
  "(\<forall>ev \<in> set t. \<exists>m. ev = Warn m) \<Longrightarrow> filter is_output t = []"
  by (induction t) auto

lemma outputs_of_filter: "outputs_of (filter is_output t) = outputs_of t"
  by (induction t rule: outputs_of.induct) auto

lemma run_trace_zero_commits:
  assumes tok: "truthy (input_or e ''github_token'' (env_GITHUB_TOKEN e))"
    and tag: "truthy (snd (actualFromTag e))"
    and ext: "snd (getChangesBetween (env_git e) (or_default (snd (actualFromTag e)) [])
                     (toRef_input e)) = Inr changes"
    and zero: "commits changes = []"
  shows "run e =
           [Info ''Starting changelog generation...''] @ fst (actualFromTag e) @
           [Info (''Analyzing changes from '' @ or_default (snd (actualFromTag e)) [] @ '' to '' @
                  toRef_input e)] @
           fst (getChangesBetween (env_git e) (or_default (snd (actualFromTag e)) [])
                  (toRef_input e)) @
           [Info ''No changes found between the specified references'',
            SetOutput ''changelog'' ''No changes found'',
            SetOutput ''changelog_file'' [],
            SetOutput ''changes_count'' ''0'']"
proof -
  obtain t1 tg where a: "actualFromTag e = (t1, tg)"
    by (cases "actualFromTag e")
  obtain t3 an where g: "getChangesBetween (env_git e) (or_default tg []) (toRef_input e) = (t3, an)"
    by (cases "getChangesBetween (env_git e) (or_default tg []) (toRef_input e)")
  from tag a have tg: "truthy tg" by simp
  from ext a g have an: "an = Inr changes" by simp
  show ?thesis
    using tok tg zero by (simp add: run_def run_try_def a g an after_analysis_def Let_def)
qed

text \<open>
  C3. When the extracted ChangeSet has no commit, the run sets exactly the outputs
  \<open>changelog = "No changes found"\<close>, \<open>changelog_file = ""\<close> and \<open>changes_count = "0"\<close>,
  reports no failure, and neither compiles a prompt, calls the backend nor writes a
  file. The hypotheses say that the run got as far as the extraction: the token is
  there, a tag was found, and \<open>getChangesBetween\<close> answered \<open>changes\<close>.
\<close>

theorem run_zero_commits:
  assumes tok: "truthy (input_or e ''github_token'' (env_GITHUB_TOKEN e))"
    and tag: "truthy (snd (actualFromTag e))"
    and ext: "snd (getChangesBetween (env_git e) (or_default (snd (actualFromTag e)) [])
                     (toRef_input e)) = Inr changes"
    and zero: "commits changes = []"
  shows "filter is_output (run e) =
           [SetOutput ''changelog'' ''No changes found'',
            SetOutput ''changelog_file'' [],
            SetOutput ''changes_count'' ''0'']
       \<and> outputs_of (run e) =
           [''changelog'' \<mapsto> ''No changes found'', ''changelog_file'' \<mapsto> [],
            ''changes_count'' \<mapsto> ''0'']
       \<and> (\<forall>ev \<in> set (run e). \<not> is_failure ev \<and> \<not> is_prompt_build ev \<and>
              \<not> is_backend_call ev \<and> \<not> is_file_write ev)"
proof -
  note r = run_trace_zero_commits [OF tok tag ext zero]
  have w1: "\<forall>ev \<in> set (fst (actualFromTag e)). \<exists>m. ev = Warn m"
    using trace_getLatestTag [of "env_git e"] by (simp add: actualFromTag_def)
  note w3 = trace_getChangesBetween [of "env_git e" "or_default (snd (actualFromTag e)) []"
      "toRef_input e"]
  have f: "filter is_output (run e) =
           [SetOutput ''changelog'' ''No changes found'',
            SetOutput ''changelog_file'' [],
            SetOutput ''changes_count'' ''0'']"
    by (simp add: r filter_output_warns [OF w1] filter_output_warns [OF w3])
  have o: "outputs_of (run e) =
           [''changelog'' \<mapsto> ''No changes found'', ''changelog_file'' \<mapsto> [],
            ''changes_count'' \<mapsto> ''0'']"
    by (subst outputs_of_filter [symmetric]) (auto simp: f)
  have n: "\<forall>ev \<in> set (run e). \<not> is_failure ev \<and> \<not> is_prompt_build ev \<and>
              \<not> is_backend_call ev \<and> \<not> is_file_write ev"
    using w1 w3 by (auto simp: r)
  from f o n show ?thesis by blast
qed

theorem run_zero_commits_witness:
  "truthy (input_or env_zero_commits ''github_token'' (env_GITHUB_TOKEN env_zero_commits))
   \<and> truthy (snd (actualFromTag env_zero_commits))
   \<and> commits \<lparr>commits = [], files = [], totalInsertions = 0, totalDeletions = 0,
               fromTag = ''v1.0.0'', toRef = ''HEAD''\<rparr> = []
   \<and> filter is_output (run env_zero_commits) =
           [SetOutput ''changelog'' ''No changes found'',
            SetOutput ''changelog_file'' [],
            SetOutput ''changes_count'' ''0'']
   \<and> list_all (\<lambda>ev. \<not> is_failure ev \<and> \<not> is_prompt_build ev \<and>
              \<not> is_backend_call ev \<and> \<not> is_file_write ev) (run env_zero_commits)"
proof -
  have tok: "truthy (input_or env_zero_commits ''github_token'' (env_GITHUB_TOKEN env_zero_commits))"
    by (simp add: env_zero_commits_def input_or_def inputs_minimal_def)
  have tag: "truthy (snd (actualFromTag env_zero_commits))"
    by (simp add: env_zero_commits_def actualFromTag_def inputs_minimal_def)
  have ext: "snd (getChangesBetween (env_git env_zero_commits)
                    (or_default (snd (actualFromTag env_zero_commits)) [])
                    (toRef_input env_zero_commits)) =
             Inr \<lparr>commits = [], files = [], totalInsertions = 0, totalDeletions = 0,
                  fromTag = ''v1.0.0'', toRef = ''HEAD''\<rparr>"
    by (simp add: env_zero_commits_def actualFromTag_def inputs_minimal_def toRef_input_def
        input_or_def or_default_def getChangesBetween_def git_no_commits_def git_ok_def)
  from run_zero_commits [OF tok tag ext] tok tag
  show ?thesis by (simp add: list_all_iff)
qed

lemma log_is_no_action:
  "is_log ev \<Longrightarrow> \<not> is_failure ev \<and> \<not> is_prompt_build ev \<and> \<not> is_backend_call ev \<and>
     \<not> is_file_write ev \<and> \<not> is_output ev"
  by (cases ev) simp_all

lemma warns_are_logs: "(\<forall>ev \<in> set t. \<exists>m. ev = Warn m) \<Longrightarrow> \<forall>ev \<in> set t. is_log ev"
  by auto

lemma actualFromTag_logs: "\<forall>ev \<in> set (fst (actualFromTag e)). is_log ev"
  using warns_are_logs [OF trace_getLatestTag [of "env_git e"]] by (simp add: actualFromTag_def)

lemma prelude_logs: "\<forall>ev \<in> set (prelude e). is_log ev"
  using actualFromTag_logs [of e]
    warns_are_logs [OF trace_getChangesBetween [of "env_git e" "or_default (snd (actualFromTag e)) []" "toRef_input e"]]
  by (auto simp: prelude_def)

lemma run_after_extraction:
  assumes tok: "truthy (input_or e ''github_token'' (env_GITHUB_TOKEN e))"
    and tag: "truthy (snd (actualFromTag e))"
    and ext: "snd (getChangesBetween (env_git e) (or_default (snd (actualFromTag e)) [])
                     (toRef_input e)) = Inr changes"
  shows "run e = prelude e @ report (after_analysis e changes)"
proof -
  obtain t1 tg where a: "actualFromTag e = (t1, tg)"
    by (cases "actualFromTag e")
  obtain t3 an where g: "getChangesBetween (env_git e) (or_default tg []) (toRef_input e) = (t3, an)"
    by (cases "getChangesBetween (env_git e) (or_default tg []) (toRef_input e)")
  from tag a have tg: "truthy tg" by simp
  from ext a g have an: "an = Inr changes" by simp
  obtain t4 r where aa: "after_analysis e changes = (t4, r)"
    by (cases "after_analysis e changes")
  show ?thesis
    using tok tg
    by (cases r) (simp_all add: run_def run_try_def a g an aa prelude_def report_def Let_def)
qed

lemma run_cases:
  "(\<exists>t m. run e = t @ [SetFailed m] \<and> (\<forall>ev \<in> set t. is_log ev))
   \<or> (\<exists>changes. run e = prelude e @ report (after_analysis e changes))"
proof (cases "truthy (input_or e ''github_token'' (env_GITHUB_TOKEN e))")
  case False
  then have "run e = [] @ [SetFailed (''Action failed: '' @ ''GitHub token is required'')]"
    by (simp add: run_def run_try_def)
  moreover have "\<forall>ev \<in> set ([] :: event list). is_log ev" by simp
  ultimately show ?thesis by blast
next
  case tok: True
  show ?thesis
  proof (cases "truthy (snd (actualFromTag e))")
    case False
    from False tok have "run e = ([Info ''Starting changelog generation...''] @ fst (actualFromTag e)) @
        [SetFailed (''Action failed: '' @ ''No from tag specified and no tags found in repository'')]"
      by (cases "actualFromTag e") (simp add: run_def run_try_def)
    moreover have "\<forall>ev \<in> set ([Info ''Starting changelog generation...''] @ fst (actualFromTag e)). is_log ev"
      using actualFromTag_logs [of e] by simp
    ultimately show ?thesis by blast
  next
    case tag: True
    show ?thesis
    proof (cases "snd (getChangesBetween (env_git e) (or_default (snd (actualFromTag e)) [])
                     (toRef_input e))")
      case (Inr changes)
      from run_after_extraction [OF tok tag Inr] show ?thesis by blast
    next
      case (Inl msg)
      from Inl tok tag have "run e = prelude e @ [SetFailed (''Action failed: '' @ msg)]"
        by (cases "actualFromTag e";
            cases "getChangesBetween (env_git e) (or_default (snd (actualFromTag e)) []) (toRef_input e)")
           (simp add: run_def run_try_def prelude_def)
      with prelude_logs [of e] show ?thesis by blast
    qed
  qed
qed

lemma after_analysis_client_error:
  assumes "commits changes \<noteq> []" and "createClaudeClient (config_of e) = Inl m"
  shows "after_analysis e changes =
           ([Info (''Found '' @ toString (length (commits changes)) @ '' commits with changes'')],
            Inl m)"
  using assms by (simp add: after_analysis_def Let_def del: toString.simps)

lemma after_analysis_quiet_on_client_error:
  assumes "createClaudeClient (config_of e) = Inl m"
  shows "\<forall>ev \<in> set (report (after_analysis e changes)).
           \<not> is_prompt_build ev \<and> \<not> is_backend_call ev"
  using assms by (simp add: after_analysis_def report_def Let_def del: toString.simps)

text \<open>
  C4. A configuration that selects the Vertex client (\<open>useVertex\<close> set, \<open>useBedrock\<close>
  not set, so that the factory reaches the Vertex branch) and has no project identifier
  makes \<open>createClaudeClient\<close> fail with the message of the missing project. In a run
  with such a configuration the failure comes right after the count of the commits is
  logged, and the trace of the run holds no prompt build and no backend call, whatever
  else the run reads.
\<close>

theorem vertex_without_project_fails_first:
  assumes nb: "\<not> flag (useBedrock config)"
    and v: "flag (useVertex config)"
    and np: "\<not> truthy (vertexProjectId config)"
  shows "createClaudeClient config = Inl ''Vertex AI project ID is required when using Vertex AI''
       \<and> (config_of e = config \<longrightarrow>
            (\<forall>changes. commits changes \<noteq> [] \<longrightarrow>
               after_analysis e changes =
                 ([Info (''Found '' @ toString (length (commits changes)) @
                         '' commits with changes'')],
                  Inl ''Vertex AI project ID is required when using Vertex AI''))
          \<and> (\<forall>ev \<in> set (run e). \<not> is_prompt_build ev \<and> \<not> is_backend_call ev))"
proof -
  have c: "createClaudeClient config = Inl ''Vertex AI project ID is required when using Vertex AI''"
    using nb v np by (cases "vertexProjectId config") (simp_all add: createClaudeClient_def)
  have q: "\<forall>ev \<in> set (run e). \<not> is_prompt_build ev \<and> \<not> is_backend_call ev"
    if eq: "config_of e = config"
  proof -
    from c eq have ce: "createClaudeClient (config_of e) =
        Inl ''Vertex AI project ID is required when using Vertex AI''" by simp
    from run_cases [of e] show ?thesis
    proof (elim disjE exE conjE)
      fix t m
      assume r: "run e = t @ [SetFailed m]" and l: "\<forall>ev \<in> set t. is_log ev"
      have "\<not> is_prompt_build ev \<and> \<not> is_backend_call ev" if "is_log ev" for ev
        using that by (cases ev) simp_all
      with l show ?thesis by (simp add: r)
    next
      fix changes
      assume r: "run e = prelude e @ report (after_analysis e changes)"
      have "\<not> is_prompt_build ev \<and> \<not> is_backend_call ev" if "is_log ev" for ev
        using that by (cases ev) simp_all
      with prelude_logs [of e] after_analysis_quiet_on_client_error [OF ce, of changes]
      show ?thesis by (auto simp: r)
    qed
  qed
  from c q after_analysis_client_error show ?thesis by auto
qed

theorem vertex_without_project_fails_first_witness:
  "\<not> flag (useBedrock (config_of env_vertex_no_project))
   \<and> flag (useVertex (config_of env_vertex_no_project))
   \<and> \<not> truthy (vertexProjectId (config_of env_vertex_no_project))
   \<and> createClaudeClient (config_of env_vertex_no_project) =
       Inl ''Vertex AI project ID is required when using Vertex AI''
   \<and> list_all (\<lambda>ev. \<not> is_prompt_build ev \<and> \<not> is_backend_call ev) (run env_vertex_no_project)
   \<and> run env_vertex_no_project =
       [Info ''Starting changelog generation...'',
        Info ''Analyzing changes from v1.0.0 to HEAD'',
        Info ''Found 1 commits with changes'',
        SetFailed ''Action failed: Vertex AI project ID is required when using Vertex AI'']"
proof -
  have nb: "\<not> flag (useBedrock (config_of env_vertex_no_project))"
    by (simp add: config_of_def env_vertex_no_project_def inputs_vertex_no_project_def flag_def)
  have v: "flag (useVertex (config_of env_vertex_no_project))"
    by (simp add: config_of_def env_vertex_no_project_def inputs_vertex_no_project_def flag_def)
  have np: "\<not> truthy (vertexProjectId (config_of env_vertex_no_project))"
    by (simp add: config_of_def env_vertex_no_project_def inputs_vertex_no_project_def)
  have r: "run env_vertex_no_project =
       [Info ''Starting changelog generation...'',
        Info ''Analyzing changes from v1.0.0 to HEAD'',
        Info ''Found 1 commits with changes'',
        SetFailed ''Action failed: Vertex AI project ID is required when using Vertex AI'']"
    by (simp add: run_def run_try_def after_analysis_def createClaudeClient_def config_of_def
        env_vertex_no_project_def inputs_vertex_no_project_def flag_def input_or_def
        actualFromTag_def toRef_input_def or_default_def getChangesBetween_def git_ok_def
        one_commit_log_def one_file_summary_def file_step_def or0_def Let_def digit_char_def)
  from vertex_without_project_fails_first [OF nb v np, of env_vertex_no_project] nb v np r
  show ?thesis by (simp add: list_all_iff)
qed

lemma write_and_output_cases:
  "(\<exists>t err. write_and_output e changes changelog = (t, Inl err))
   \<or> (\<exists>t path. write_and_output e changes changelog = (t, Inr ()) \<and>
          filter is_output t =
            [SetOutput ''changelog'' changelog, SetOutput ''changelog_file'' path,
             SetOutput ''changes_count'' (toString (length (commits changes)))])"
  by (cases "env_writeFile e (or_default (input_or e ''output_file'' None) ''CHANGELOG.md'') changelog")
     (simp_all add: write_and_output_def Let_def del: toString.simps)

lemma after_analysis_success:
  assumes nz: "commits changes \<noteq> []"
    and ok: "\<forall>ev \<in> set (report (after_analysis e changes)). \<not> is_failure ev"
  shows "\<exists>changelog path. filter is_output (report (after_analysis e changes)) =
           [SetOutput ''changelog'' changelog, SetOutput ''changelog_file'' path,
            SetOutput ''changes_count'' (toString (length (commits changes)))]"
proof (cases "createClaudeClient (config_of e)")
  case (Inl m)
  with nz ok show ?thesis
    by (simp add: after_analysis_def report_def Let_def del: toString.simps)
next
  case (Inr client)
  show ?thesis
  proof (cases "generateResponse (env_send e) client (buildPrompt changes)")
    case (Inl m)
    with nz ok Inr show ?thesis
      by (simp add: after_analysis_def generateChangelog_def report_def Let_def del: toString.simps)
  next
    case content: (Inr content)
    define changelog where
      "changelog = (if or_default (input_or e ''format'' None) ''markdown'' = ''json''
                    then formatAsJson (env_clock e) content changes
                    else formatAsMarkdown (env_clock e) content)"
    have aa: "after_analysis e changes =
        (case write_and_output e changes changelog of
           (t', r') \<Rightarrow>
             ([Info (''Found '' @ toString (length (commits changes)) @ '' commits with changes''),
               BuildPrompt changes, GenerateResponse client (buildPrompt changes),
               Info ''Changelog generated successfully''] @ t', r'))"
      using nz Inr content
      by (simp add: after_analysis_def generateChangelog_def changelog_def Let_def
          del: toString.simps)
    from write_and_output_cases [of e changes changelog] show ?thesis
    proof (elim disjE exE conjE)
      fix t err
      assume "write_and_output e changes changelog = (t, Inl err)"
      with ok show ?thesis by (simp add: aa report_def del: toString.simps)
    next
      fix t path
      assume "write_and_output e changes changelog = (t, Inr ())"
        and "filter is_output t =
            [SetOutput ''changelog'' changelog, SetOutput ''changelog_file'' path,
             SetOutput ''changes_count'' (toString (length (commits changes)))]"
      then show ?thesis by (simp add: aa report_def del: toString.simps)
    qed
  qed
qed

lemma filter_output_logs: "(\<forall>ev \<in> set t. is_log ev) \<Longrightarrow> filter is_output t = []"
proof (induction t)
  case Nil
  then show ?case by simp
next
  case (Cons ev t)
  then show ?case by (cases ev) simp_all
qed

text \<open>
  C9. In a run that got a ChangeSet with at least one commit and reports no failure, the
  output \<open>changes_count\<close> is the decimal rendering of the number of commits; the run
  sets exactly three outputs, \<open>changes_count\<close> last.
\<close>

theorem changes_count_is_commit_count:
  assumes tok: "truthy (input_or e ''github_token'' (env_GITHUB_TOKEN e))"
    and tag: "truthy (snd (actualFromTag e))"
    and ext: "snd (getChangesBetween (env_git e) (or_default (snd (actualFromTag e)) [])
                     (toRef_input e)) = Inr changes"
    and nz: "commits changes \<noteq> []"
    and ok: "\<forall>ev \<in> set (run e). \<not> is_failure ev"
  shows "outputs_of (run e) ''changes_count'' = Some (toString (length (commits changes)))
       \<and> (\<exists>changelog path. filter is_output (run e) =
             [SetOutput ''changelog'' changelog, SetOutput ''changelog_file'' path,
              SetOutput ''changes_count'' (toString (length (commits changes)))])"
proof -
  note r = run_after_extraction [OF tok tag ext]
  from ok have ok': "\<forall>ev \<in> set (report (after_analysis e changes)). \<not> is_failure ev"
    by (simp add: r)
  from after_analysis_success [OF nz ok'] obtain changelog path where
    f: "filter is_output (report (after_analysis e changes)) =
           [SetOutput ''changelog'' changelog, SetOutput ''changelog_file'' path,
            SetOutput ''changes_count'' (toString (length (commits changes)))]"
    by blast
  have fr: "filter is_output (run e) =
           [SetOutput ''changelog'' changelog, SetOutput ''changelog_file'' path,
            SetOutput ''changes_count'' (toString (length (commits changes)))]"
    by (simp add: r f filter_output_logs [OF prelude_logs] del: toString.simps)
  have "outputs_of (filter is_output (run e)) ''changes_count'' =
          Some (toString (length (commits changes)))"
    by (simp add: fr del: toString.simps)
  then have "outputs_of (run e) ''changes_count'' = Some (toString (length (commits changes)))"
    by (simp only: outputs_of_filter)
  with fr show ?thesis by blast
qed

theorem changes_count_is_commit_count_witness:
  "truthy (input_or env_two_commits ''github_token'' (env_GITHUB_TOKEN env_two_commits))
   \<and> truthy (snd (actualFromTag env_two_commits))
   \<and> snd (getChangesBetween (env_git env_two_commits)
           (or_default (snd (actualFromTag env_two_commits)) [])
           (toRef_input env_two_commits)) = Inr changes_two_commits
   \<and> commits changes_two_commits \<noteq> []
   \<and> list_all (\<lambda>ev. \<not> is_failure ev) (run env_two_commits)
   \<and> length (files changes_two_commits) = 1
   \<and> outputs_of (run env_two_commits) ''changes_count'' = Some ''2''"
proof -
  have tok: "truthy (input_or env_two_commits ''github_token'' (env_GITHUB_TOKEN env_two_commits))"
    by (simp add: env_two_commits_def input_or_def inputs_stdout_def)
  have tag: "truthy (snd (actualFromTag env_two_commits))"
    by (simp add: env_two_commits_def actualFromTag_def inputs_stdout_def)
  have ext: "snd (getChangesBetween (env_git env_two_commits)
                    (or_default (snd (actualFromTag env_two_commits)) [])
                    (toRef_input env_two_commits)) = Inr changes_two_commits"
    by (simp add: env_two_commits_def actualFromTag_def inputs_stdout_def toRef_input_def
        input_or_def or_default_def getChangesBetween_def git_ok_def one_file_summary_def
        file_step_def or0_def changes_two_commits_def Let_def)
  have nz: "commits changes_two_commits \<noteq> []"
    by (simp add: changes_two_commits_def two_commit_log_def)
  have c: "createClaudeClient (config_of env_two_commits) =
             Inr (AnthropicClaudeClient ''sk-key'' ''claude-3-5-sonnet-20241022'')"
    by (simp add: createClaudeClient_def config_of_def env_two_commits_def inputs_stdout_def
        flag_def input_or_def or_default_def)
  have a: "report (after_analysis env_two_commits changes_two_commits) =
      [Info ''Found 2 commits with changes'',
       BuildPrompt changes_two_commits,
       GenerateResponse (AnthropicClaudeClient ''sk-key'' ''claude-3-5-sonnet-20241022'')
         (buildPrompt changes_two_commits),
       Info ''Changelog generated successfully'',
       SetOutput ''changelog''
         (formatAsMarkdown ''2024-05-01T10:00:00.000Z'' ''- Corrected crash on null input''),
       SetOutput ''changelog_file'' ''stdout'',
       SetOutput ''changes_count'' ''2'']"
    using nz
    by (simp add: after_analysis_def c generateChangelog_def send_fixed_def write_and_output_def
        report_def Let_def input_or_def or_default_def)
       (simp add: env_two_commits_def inputs_stdout_def send_fixed_def changes_two_commits_def
        two_commit_log_def digit_char_def)
  have ok: "\<forall>ev \<in> set (run env_two_commits). \<not> is_failure ev"
  proof
    fix ev
    assume "ev \<in> set (run env_two_commits)"
    then have "ev \<in> set (prelude env_two_commits) \<or>
               ev \<in> set (report (after_analysis env_two_commits changes_two_commits))"
      by (simp add: run_after_extraction [OF tok tag ext])
    then show "\<not> is_failure ev"
    proof
      assume "ev \<in> set (prelude env_two_commits)"
      with prelude_logs [of env_two_commits] have "is_log ev" by blast
      then show ?thesis by (cases ev) simp_all
    next
      assume "ev \<in> set (report (after_analysis env_two_commits changes_two_commits))"
      then show ?thesis unfolding a by auto
    qed
  qed
  have cnt: "toString (length (commits changes_two_commits)) = ''2''"
    by (simp add: changes_two_commits_def two_commit_log_def digit_char_def)
  have fl: "length (files changes_two_commits) = 1"
    by (simp add: changes_two_commits_def)
  from changes_count_is_commit_count [OF tok tag ext nz ok]
  have o: "outputs_of (run env_two_commits) ''changes_count'' = Some ''2''"
    unfolding cnt by (rule conjunct1)
  from ok have la: "list_all (\<lambda>ev. \<not> is_failure ev) (run env_two_commits)"
    by (simp only: list_all_iff)
  from tok tag ext nz la fl o show ?thesis
    by (intro conjI)
qed

section \<open>Properties of the prompt compiler\<close>

lemma join_nonempty: "xs \<noteq> [] \<Longrightarrow> hd xs \<noteq> [] \<Longrightarrow> join xs sep \<noteq> []"
  by (cases "(xs, sep)" rule: join.cases) auto

lemma sampledFiles_empty_iff: "sampledFiles fs = [] \<longleftrightarrow> (\<forall>f \<in> set fs. insertions f + deletions f \<le> 5)"
  by (auto simp: sampledFiles_def filter_empty_conv not_less)

lemma significantDiffs_empty_iff: "significantDiffs fs = [] \<longleftrightarrow> sampledFiles fs = []"
proof
  assume e: "significantDiffs fs = []"
  show "sampledFiles fs = []"
  proof (rule ccontr)
    assume n: "sampledFiles fs \<noteq> []"
    then have "map diffSample (sampledFiles fs) \<noteq> []" by simp
    moreover have "hd (map diffSample (sampledFiles fs)) \<noteq> []"
      using n by (simp add: hd_map diffSample_def)
    ultimately have "join (map diffSample (sampledFiles fs)) (bsn @ bsn) \<noteq> []"
      by (rule join_nonempty)
    with e show False by (simp add: significantDiffs_def)
  qed
next
  assume "sampledFiles fs = []"
  then show "significantDiffs fs = []" by (simp add: significantDiffs_def)
qed

text \<open>
  C7. The prompt samples the diffs of the first at most 5 files, in their order, whose
  insertions and deletions together exceed 5; each sample holds the first at most 1000
  characters of the diff of its file between its fences; and when no file exceeds the
  threshold the sample section is the empty string, with no heading, while it is the
  heading and the samples when some file does. The prompt is the head, this section and
  the instructions.
\<close>

theorem buildPrompt_diff_samples:
  "sampledFiles fs = take 5 (filter (\<lambda>f. insertions f + deletions f > 5) fs)
   \<and> length (sampledFiles fs) \<le> 5
   \<and> (\<forall>f \<in> set (sampledFiles fs).
         f \<in> set fs \<and> insertions f + deletions f > 5 \<and>
         diffSample f = ''### '' @ fileName f @ bsn @ [bq, bq, bq] @ ''diff'' @ bsn @
                        take 1000 (diff f) @ bsn @ [bq, bq, bq] \<and>
         length (take 1000 (diff f)) \<le> 1000)
   \<and> significantDiffs fs = join (map diffSample (sampledFiles fs)) (bsn @ bsn)
   \<and> ((\<forall>f \<in> set fs. insertions f + deletions f \<le> 5) \<longrightarrow> sampleSection fs = [])
   \<and> ((\<exists>f \<in> set fs. insertions f + deletions f > 5) \<longrightarrow>
         sampleSection fs = ''## Sample Code Changes'' @ bsn @ significantDiffs fs)
   \<and> buildPrompt changes =
         promptHead changes @ sampleSection (files changes) @ promptInstructions"
proof -
  have a: "sampledFiles fs = take 5 (filter (\<lambda>f. insertions f + deletions f > 5) fs)"
    by (simp add: sampledFiles_def)
  have b: "length (sampledFiles fs) \<le> 5"
    by (simp add: sampledFiles_def)
  have c: "\<forall>f \<in> set (sampledFiles fs).
         f \<in> set fs \<and> insertions f + deletions f > 5 \<and>
         diffSample f = ''### '' @ fileName f @ bsn @ [bq, bq, bq] @ ''diff'' @ bsn @
                        take 1000 (diff f) @ bsn @ [bq, bq, bq] \<and>
         length (take 1000 (diff f)) \<le> 1000"
  proof
    fix f
    assume "f \<in> set (sampledFiles fs)"
    then have "f \<in> set (filter (\<lambda>f. insertions f + deletions f > 5) fs)"
      unfolding sampledFiles_def by (rule in_set_takeD)
    then show "f \<in> set fs \<and> insertions f + deletions f > 5 \<and>
         diffSample f = ''### '' @ fileName f @ bsn @ [bq, bq, bq] @ ''diff'' @ bsn @
                        take 1000 (diff f) @ bsn @ [bq, bq, bq] \<and>
         length (take 1000 (diff f)) \<le> 1000"
      by (simp add: diffSample_def substring0_def)
  qed
  have d: "significantDiffs fs = join (map diffSample (sampledFiles fs)) (bsn @ bsn)"
    by (simp add: significantDiffs_def)
  have e: "(\<forall>f \<in> set fs. insertions f + deletions f \<le> 5) \<longrightarrow> sampleSection fs = []"
    by (simp add: sampleSection_def significantDiffs_empty_iff sampledFiles_empty_iff)
  have f: "(\<exists>f \<in> set fs. insertions f + deletions f > 5) \<longrightarrow>
         sampleSection fs = ''## Sample Code Changes'' @ bsn @ significantDiffs fs"
    by (auto simp: sampleSection_def significantDiffs_empty_iff sampledFiles_empty_iff)
  have g: "buildPrompt changes =
         promptHead changes @ sampleSection (files changes) @ promptInstructions"
    by (simp add: buildPrompt_def)
  from a b c d e f g show ?thesis by (intro conjI)
qed

theorem buildPrompt_diff_samples_witness:
  "map fileName (sampledFiles seven_files) = [''a.ts'', ''c.ts'', ''d.ts'', ''e.ts'', ''f.ts'']
   \<and> length (sampledFiles seven_files) = 5
   \<and> list_all (\<lambda>f. length (diff f) = 1500 \<and> length (take 1000 (diff f)) = 1000)
        (sampledFiles seven_files)
   \<and> list_all (\<lambda>f. insertions f + deletions f \<le> 5) small_files
   \<and> sampleSection small_files = []
   \<and> list_ex (\<lambda>f. insertions f + deletions f > 5) seven_files
   \<and> sampleSection seven_files = ''## Sample Code Changes'' @ bsn @ significantDiffs seven_files"
proof -
  have s: "\<forall>f \<in> set small_files. insertions f + deletions f \<le> 5"
    by (simp add: small_files_def file_with_def)
  have b: "\<exists>f \<in> set seven_files. insertions f + deletions f > 5"
    by (simp add: seven_files_def file_with_def)
  have m: "map fileName (sampledFiles seven_files) = [''a.ts'', ''c.ts'', ''d.ts'', ''e.ts'', ''f.ts'']"
    by (simp add: sampledFiles_def seven_files_def file_with_def)
  have ld: "length long_diff = 1500 \<and> length (take 1000 long_diff) = 1000"
    by (simp add: long_diff_def)
  have l: "list_all (\<lambda>f. length (diff f) = 1500 \<and> length (take 1000 (diff f)) = 1000)
        (sampledFiles seven_files)"
    using ld by (simp add: sampledFiles_def seven_files_def file_with_def)
  from buildPrompt_diff_samples [of small_files] s
  have e: "sampleSection small_files = []" by blast
  from buildPrompt_diff_samples [of seven_files] b
  have n: "sampleSection seven_files = ''## Sample Code Changes'' @ bsn @ significantDiffs seven_files"
    by blast
  have len: "length (sampledFiles seven_files) = 5"
    by (simp add: sampledFiles_def seven_files_def file_with_def)
  from s have s': "list_all (\<lambda>f. insertions f + deletions f \<le> 5) small_files"
    by (simp only: list_all_iff)
  from b have b': "list_ex (\<lambda>f. insertions f + deletions f > 5) seven_files"
    by (simp only: list_ex_iff)
  from m len l s' e b' n show ?thesis by (intro conjI)
qed

section \<open>Properties of the response synthesizer, markdown mode\<close>

lemma includes_str_sublist: "includes_str s p \<longleftrightarrow> sublist p s"
  by (induction s) (simp_all add: sublist_Cons_right)

lemma includes_three_imp_two: "includes_str s ''### '' \<Longrightarrow> includes_str s ''## ''"
proof (induction s)
  case Nil
  then show ?case by simp
next
  case (Cons c cs)
  show ?case
  proof (cases "prefix ''### '' (c # cs)")
    case True
    then obtain r where "c # cs = ''### '' @ r" by (auto simp: prefix_def)
    then have "prefix ''## '' cs" by simp
    then have "includes_str cs ''## ''" by (cases cs) simp_all
    then show ?thesis by simp
  next
    case False
    with Cons show ?thesis by auto
  qed
qed

text \<open>
  C6, as stated: the header is prepended exactly when no line of the text begins with a
  heading marker. The text \<open>foo ## bar\<close> has one line, which begins with \<open>f\<close>; the
  code finds the marker and a space inside the line and returns the text with no header.
\<close>

theorem formatAsMarkdown_counterexample:
  "\<not> claimed_heading_line_present (trim ''foo ## bar'')
   \<and> formatAsMarkdown ''2024-05-01T10:00:00.000Z'' ''foo ## bar'' = ''foo ## bar''"
  by (simp add: claimed_heading_line_present_def formatAsMarkdown_def trim_def is_space_def
      split_def lf_def)

text \<open>
  C6, amended: in markdown mode the raw text is trimmed; when the trimmed text contains
  the two heading markers followed by a space anywhere, at the start of a line or not (a
  text with three markers and a space contains them too), it is returned unchanged;
  otherwise the result begins with the header that holds the \<open>Unreleased\<close> label and
  today's date, ends with the trimmed text, and differs from it.
\<close>

theorem formatAsMarkdown_header_iff_no_marker_text:
  "(sublist ''## '' (trim content) \<longrightarrow> formatAsMarkdown now content = trim content)
   \<and> (\<not> sublist ''## '' (trim content) \<longrightarrow>
        prefix (''## [Unreleased] - '' @ isoDate now) (formatAsMarkdown now content)
      \<and> suffix (trim content) (formatAsMarkdown now content)
      \<and> formatAsMarkdown now content \<noteq> trim content)"
proof -
  have t: "includes_str (trim content) ''### '' \<Longrightarrow> includes_str (trim content) ''## ''"
    by (rule includes_three_imp_two)
  have n: "formatAsMarkdown now content =
             ''## [Unreleased] - '' @ isoDate now @ bsn @ bsn @ trim content"
    if "\<not> includes_str (trim content) ''## ''"
    using that t by (auto simp: formatAsMarkdown_def Let_def)
  have y: "formatAsMarkdown now content = trim content" if "includes_str (trim content) ''## ''"
    using that by (simp add: formatAsMarkdown_def Let_def)
  have p: "prefix (''## [Unreleased] - '' @ isoDate now)
             (''## [Unreleased] - '' @ isoDate now @ bsn @ bsn @ trim content)"
    by (simp add: prefix_def)
  have s: "suffix (trim content) (''## [Unreleased] - '' @ isoDate now @ bsn @ bsn @ trim content)"
    by (simp add: suffix_def)
  have "length (''## [Unreleased] - '' @ isoDate now @ bsn @ bsn @ trim content) > length (trim content)"
    by simp
  then have d: "''## [Unreleased] - '' @ isoDate now @ bsn @ bsn @ trim content \<noteq> trim content"
    by (metis less_irrefl)
  show ?thesis
  proof (cases "includes_str (trim content) ''## ''")
    case True
    then have "sublist ''## '' (trim content)" by (simp only: includes_str_sublist)
    with y [OF True] show ?thesis by simp
  next
    case False
    then have ns: "\<not> sublist ''## '' (trim content)" by (simp add: includes_str_sublist)
    from False have eq: "formatAsMarkdown now content =
        ''## [Unreleased] - '' @ isoDate now @ bsn @ bsn @ trim content"
      by (rule n)
    show ?thesis
      unfolding eq
    proof (intro conjI impI)
      assume "sublist ''## '' (trim content)"
      with ns show "''## [Unreleased] - '' @ isoDate now @ bsn @ bsn @ trim content = trim content"
        by blast
    next
      show "prefix (''## [Unreleased] - '' @ isoDate now)
              (''## [Unreleased] - '' @ isoDate now @ bsn @ bsn @ trim content)"
        by (rule p)
    next
      show "suffix (trim content)
              (''## [Unreleased] - '' @ isoDate now @ bsn @ bsn @ trim content)"
        by (rule s)
    next
      show "''## [Unreleased] - '' @ isoDate now @ bsn @ bsn @ trim content \<noteq> trim content"
        by (rule d)
    qed
  qed
qed

theorem formatAsMarkdown_header_iff_no_marker_text_witness:
  "sublist ''## '' (trim ''  ## Fixed  '')
   \<and> formatAsMarkdown ''2024-05-01T10:00:00.000Z'' ''  ## Fixed  '' = ''## Fixed''
   \<and> \<not> sublist ''## '' (trim '' plain text '')
   \<and> prefix ''## [Unreleased] - 2024-05-01''
        (formatAsMarkdown ''2024-05-01T10:00:00.000Z'' '' plain text '')
   \<and> suffix ''plain text'' (formatAsMarkdown ''2024-05-01T10:00:00.000Z'' '' plain text '')"
proof -
  have a: "sublist ''## '' (trim ''  ## Fixed  '')"
    by (simp add: includes_str_sublist [symmetric] trim_def is_space_def)
  have b: "\<not> sublist ''## '' (trim '' plain text '')"
    by (simp add: includes_str_sublist [symmetric] trim_def is_space_def)
  have ta: "trim ''  ## Fixed  '' = ''## Fixed''" by (simp add: trim_def is_space_def)
  have tb: "trim '' plain text '' = ''plain text''" by (simp add: trim_def is_space_def)
  have d: "isoDate ''2024-05-01T10:00:00.000Z'' = ''2024-05-01''"
    by (simp add: isoDate_def split_def)
  from formatAsMarkdown_header_iff_no_marker_text
         [of "''  ## Fixed  ''" "''2024-05-01T10:00:00.000Z''"]
       formatAsMarkdown_header_iff_no_marker_text
         [of "'' plain text ''" "''2024-05-01T10:00:00.000Z''"] a b
  show ?thesis by (simp add: ta tb d)
qed

section \<open>Properties of the response synthesizer, structured mode\<close>

lemma no_marker_no_header: "\<not> prefix ''##'' s \<Longrightarrow> sectionMatch s = None"
  by (auto simp: sectionMatch_def split: list.splits)

lemma line_step_header:
  "sectionMatch (trim line) = Some t \<Longrightarrow>
   line_step (secs, cur) line = (close_sections (secs, cur), Some \<lparr>type = t, items = []\<rparr>)"
  by (simp add: line_step_def close_sections_def Let_def)

lemma line_step_no_header:
  "sectionMatch (trim line) = None \<Longrightarrow>
   fst (line_step (secs, cur) line) = secs \<and> line_step (secs, None) line = (secs, None)"
  by (simp add: line_step_def Let_def split: option.splits)

lemma foldl_no_header:
  "(\<forall>l \<in> set ls. sectionMatch (trim l) = None) \<Longrightarrow> foldl line_step (secs, None) ls = (secs, None)"
  by (induction ls) (simp_all add: line_step_no_header)

lemma parse_sections_no_header:
  "(\<forall>l \<in> set (split content bsn). sectionMatch (trim l) = None) \<Longrightarrow> parse_sections content = []"
  using foldl_no_header [of "split content bsn" "[]"]
  by (simp add: parse_sections_def parse_lines_def close_sections_def)

lemma line_step_open_section:
  "sectionMatch (trim line) = None \<Longrightarrow>
   line_step (secs, Some c) line =
     (secs, Some (case bulletMatch (trim line) of
                    None \<Rightarrow> c
                  | Some item \<Rightarrow> c\<lparr>items := items c @ [item]\<rparr>))"
  by (simp add: line_step_def Let_def split: option.splits)

lemma foldl_section_body:
  "(\<forall>l \<in> set body. sectionMatch (trim l) = None) \<Longrightarrow>
   foldl line_step (secs, Some c) body =
     (secs, Some (c\<lparr>items := items c @ List.map_filter (\<lambda>l. bulletMatch (trim l)) body\<rparr>))"
proof (induction body arbitrary: c)
  case Nil
  then show ?case by (simp add: map_filter_simps)
next
  case (Cons l ls)
  then have n: "sectionMatch (trim l) = None" and r: "\<forall>l \<in> set ls. sectionMatch (trim l) = None"
    by simp_all
  show ?case
  proof (cases "bulletMatch (trim l)")
    case None
    with Cons.IH [OF r, of c] n show ?thesis
      by (simp add: line_step_open_section map_filter_simps)
  next
    case (Some item)
    with Cons.IH [OF r, of "c\<lparr>items := items c @ [item]\<rparr>"] n show ?thesis
      by (simp add: line_step_open_section map_filter_simps)
  qed
qed

lemma types_line_step:
  "map type (close_sections (line_step st l)) =
     map type (close_sections st) @ (case sectionMatch (trim l) of Some t \<Rightarrow> [t] | None \<Rightarrow> [])"
  by (cases st) (simp add: line_step_def close_sections_def Let_def split: option.splits)

lemma types_foldl:
  "map type (close_sections (foldl line_step st ls)) =
     map type (close_sections st) @ List.map_filter (\<lambda>l. sectionMatch (trim l)) ls"
proof (induction ls arbitrary: st)
  case Nil
  then show ?case by (simp add: map_filter_simps)
next
  case (Cons l ls)
  show ?case
    by (simp add: Cons.IH types_line_step map_filter_simps split: option.splits)
qed

lemma parse_lines_header_body:
  assumes h: "sectionMatch (trim h) = Some t"
    and b: "\<forall>l \<in> set body. sectionMatch (trim l) = None"
  shows "parse_lines (pre @ h # body) =
           parse_lines pre @
           [\<lparr>type = t, items = List.map_filter (\<lambda>l. bulletMatch (trim l)) body\<rparr>]"
proof -
  obtain secs cur where st: "foldl line_step ([], None) pre = (secs, cur)"
    by (cases "foldl line_step ([], None) pre")
  have "foldl line_step ([], None) (pre @ h # body) =
          foldl line_step (close_sections (secs, cur), Some \<lparr>type = t, items = []\<rparr>) body"
    by (simp add: st line_step_header [OF h])
  also have "\<dots> = (close_sections (secs, cur),
                    Some \<lparr>type = t, items = List.map_filter (\<lambda>l. bulletMatch (trim l)) body\<rparr>)"
    by (simp add: foldl_section_body [OF b])
  finally show ?thesis
    by (simp add: parse_lines_def st close_sections_def)
qed

text \<open>
  C5, amended. A line is one of the pieces that the split of the raw text yields. A
  line whose trimmed text does not begin with the two heading markers is never a header,
  so a text with no such line has no section. A line that the header pattern matches
  opens a new section of the matched category, with no items, and closes the open one,
  which is pushed into the result at that moment. A line that the pattern does not match
  opens and pushes nothing: it leaves the open section in place, with its text appended
  as an item if it is a bullet, and with no section open it changes nothing, so the lines
  before the first header, bullets included, are dropped. The section still open after
  the last line is pushed then. Hence the result has one section for each header line,
  in the order of the lines, and a header followed by lines that are no headers yields
  the section of its category whose items are the bullets among them.
\<close>

theorem structured_sections_by_header_lines:
  "(\<not> prefix ''##'' (trim line) \<longrightarrow> sectionMatch (trim line) = None)
   \<and> (sectionMatch (trim line) = Some t \<longrightarrow>
        line_step (secs, cur) line = (close_sections (secs, cur), Some \<lparr>type = t, items = []\<rparr>))
   \<and> (sectionMatch (trim line) = None \<longrightarrow>
        fst (line_step (secs, cur) line) = secs
      \<and> line_step (secs, None) line = (secs, None)
      \<and> line_step (secs, Some c) line =
          (secs, Some (case bulletMatch (trim line) of
                         None \<Rightarrow> c
                       | Some item \<Rightarrow> c\<lparr>items := items c @ [item]\<rparr>)))
   \<and> parse_lines ls = close_sections (foldl line_step ([], None) ls)
   \<and> ((\<forall>l \<in> set pre. sectionMatch (trim l) = None) \<longrightarrow> parse_lines (pre @ ls) = parse_lines ls)
   \<and> (sectionMatch (trim h) = Some t \<and> (\<forall>l \<in> set body. sectionMatch (trim l) = None) \<longrightarrow>
        parse_lines (ls @ h # body) =
          parse_lines ls @
          [\<lparr>type = t, items = List.map_filter (\<lambda>l. bulletMatch (trim l)) body\<rparr>])
   \<and> parse_sections content = parse_lines (split content bsn)
   \<and> map type (parse_sections content) =
       List.map_filter (\<lambda>l. sectionMatch (trim l)) (split content bsn)
   \<and> ((\<forall>l \<in> set (split content bsn). \<not> prefix ''##'' (trim l)) \<longrightarrow>
        parse_sections content = [])"
proof -
  have a: "\<not> prefix ''##'' (trim line) \<longrightarrow> sectionMatch (trim line) = None"
    using no_marker_no_header [of "trim line"] by blast
  have b: "sectionMatch (trim line) = Some t \<longrightarrow>
        line_step (secs, cur) line = (close_sections (secs, cur), Some \<lparr>type = t, items = []\<rparr>)"
    using line_step_header [of line t secs cur] by blast
  have c: "sectionMatch (trim line) = None \<longrightarrow>
        fst (line_step (secs, cur) line) = secs
      \<and> line_step (secs, None) line = (secs, None)
      \<and> line_step (secs, Some c) line =
          (secs, Some (case bulletMatch (trim line) of
                         None \<Rightarrow> c
                       | Some item \<Rightarrow> c\<lparr>items := items c @ [item]\<rparr>))"
    using line_step_no_header [of line secs cur] line_step_open_section [of line secs c] by blast
  have d: "parse_lines ls = close_sections (foldl line_step ([], None) ls)"
    by (simp add: parse_lines_def)
  have e: "(\<forall>l \<in> set pre. sectionMatch (trim l) = None) \<longrightarrow> parse_lines (pre @ ls) = parse_lines ls"
  proof
    assume n: "\<forall>l \<in> set pre. sectionMatch (trim l) = None"
    show "parse_lines (pre @ ls) = parse_lines ls"
      using foldl_no_header [OF n, of "[]"] by (simp add: parse_lines_def)
  qed
  have f: "sectionMatch (trim h) = Some t \<and> (\<forall>l \<in> set body. sectionMatch (trim l) = None) \<longrightarrow>
        parse_lines (ls @ h # body) =
          parse_lines ls @
          [\<lparr>type = t, items = List.map_filter (\<lambda>l. bulletMatch (trim l)) body\<rparr>]"
    using parse_lines_header_body [of h t body ls] by blast
  have g: "parse_sections content = parse_lines (split content bsn)"
    by (simp add: parse_sections_def)
  have i: "map type (parse_sections content) =
       List.map_filter (\<lambda>l. sectionMatch (trim l)) (split content bsn)"
    using types_foldl [of "([], None)" "split content bsn"]
    by (simp add: parse_sections_def parse_lines_def close_sections_def)
  have j: "(\<forall>l \<in> set (split content bsn). \<not> prefix ''##'' (trim l)) \<longrightarrow>
        parse_sections content = []"
  proof
    assume "\<forall>l \<in> set (split content bsn). \<not> prefix ''##'' (trim l)"
    then have "\<forall>l \<in> set (split content bsn). sectionMatch (trim l) = None"
      using no_marker_no_header by blast
    then show "parse_sections content = []"
      by (rule parse_sections_no_header)
  qed
  from a b c d e f g i j show ?thesis by (intro conjI)
qed

text \<open>
  C5, as stated: a line that is a category name with no heading marker opens a section.
  The line \<open>Added\<close> opens none: the pattern starts with two heading markers.
\<close>

theorem bare_category_name_counterexample:
  "sectionMatch (trim ''Added'') = None \<and> parse_sections ''Added'' = []"
  by (simp add: parse_sections_def parse_lines_def split_def bsn_def bs_def line_step_def
      sectionMatch_def trim_def is_space_def close_sections_def)

text \<open>
  C10. The claim: a line that begins with the heading markers, optional white space and
  a category name opens a section, whatever follows on the line, as
  \<open>## Fixed critical bugs\<close> does. The code at that line: the pattern of the source has
  a doubled backslash before \<open>s*\<close>, so it asks for a backslash character after the
  markers; the line does not match and the result has no section.
\<close>

theorem spaced_header_opens_no_section:
  "sectionMatch (trim ''## Fixed critical bugs'') = None
   \<and> parse_sections ''## Fixed critical bugs'' = []"
  by (simp add: parse_sections_def parse_lines_def split_def bsn_def bs_def line_step_def
      sectionMatch_def trim_def is_space_def close_sections_def)

text \<open>
  What the pattern of the source does match: the markers, a backslash, a category name.
  Lines are the pieces between occurrences of backslash-n; a bullet is a dash or a star,
  a backslash and at least one \<open>s\<close>.
\<close>

lemma backslash_header_opens_section:
  "parse_sections (''##'' @ [bs] @ ''Fixed critical bugs'' @ bsn @ ''-'' @ [bs] @ ''sitem'' @ bsn @
                   ''##'' @ [bs] @ ''fixed'') =
     [\<lparr>type = Fixed, items = [''item'']\<rparr>, \<lparr>type = Fixed, items = []\<rparr>]"
  by (simp add: parse_sections_def parse_lines_def split_def bsn_def bs_def line_step_def
      sectionMatch_def bulletMatch_def match_group_def toUpperCase_char_def trim_def is_space_def
      close_sections_def)

theorem structured_sections_by_header_lines_witness:
  "\<not> prefix ''##'' (trim ''- item'')
   \<and> sectionMatch (trim ''- item'') = None
   \<and> sectionMatch (trim header_line_fixed) = Some Fixed
   \<and> line_step ([], Some open_added) header_line_fixed =
       ([open_added], Some \<lparr>type = Fixed, items = []\<rparr>)
   \<and> line_step ([], None) ''- item'' = ([], None)
   \<and> line_step ([], Some open_added) ''- item'' = ([], Some open_added)
   \<and> sectionMatch (trim bullet_line_item) = None
   \<and> line_step ([], Some open_added) bullet_line_item =
       ([], Some \<lparr>type = Added, items = [''x'', ''item'']\<rparr>)
   \<and> list_all (\<lambda>l. sectionMatch (trim l) = None) [''- item'', ''Added'']
   \<and> parse_lines ([''- item'', ''Added''] @ [header_line_fixed]) = parse_lines [header_line_fixed]
   \<and> list_all (\<lambda>l. sectionMatch (trim l) = None) [''just prose'', bullet_line_item]
   \<and> parse_lines ([header_line_fixed] @ header_line_fixed # [''just prose'', bullet_line_item]) =
       parse_lines [header_line_fixed] @ [\<lparr>type = Fixed, items = [''item'']\<rparr>]
   \<and> list_all (\<lambda>l. \<not> prefix ''##'' (trim l)) (split ''- item'' bsn)
   \<and> parse_sections ''- item'' = []"
proof -
  have p: "\<not> prefix ''##'' (trim ''- item'')"
    by (simp add: trim_def is_space_def)
  have h: "sectionMatch (trim header_line_fixed) = Some Fixed"
    by (simp add: header_line_fixed_def sectionMatch_def match_group_def toUpperCase_char_def
        trim_def is_space_def bs_def)
  have a: "\<forall>l \<in> set [''- item'', ''Added'']. sectionMatch (trim l) = None"
    by (simp add: sectionMatch_def trim_def is_space_def bs_def)
  have nb: "sectionMatch (trim bullet_line_item) = None"
    by (simp add: bullet_line_item_def sectionMatch_def trim_def is_space_def bs_def)
  have bd: "\<forall>l \<in> set [''just prose'', bullet_line_item]. sectionMatch (trim l) = None"
    using nb by (simp add: sectionMatch_def trim_def is_space_def bs_def)
  have b0: "bulletMatch (trim ''- item'') = None"
    by (simp add: bulletMatch_def trim_def is_space_def bs_def)
  have b1: "bulletMatch (trim bullet_line_item) = Some ''item''"
    by (simp add: bullet_line_item_def bulletMatch_def trim_def is_space_def bs_def)
  have b2: "bulletMatch (trim ''just prose'') = None"
    by (simp add: bulletMatch_def trim_def is_space_def bs_def)
  have mf: "List.map_filter (\<lambda>l. bulletMatch (trim l)) [''just prose'', bullet_line_item] = [''item'']"
    by (simp add: map_filter_simps b1 b2)
  have c: "close_sections ([], Some open_added) = [open_added]"
    by (simp add: close_sections_def)
  have sp: "split ''- item'' bsn = [''- item'']"
    by (simp add: split_def bsn_def bs_def)
  have q: "\<forall>l \<in> set (split ''- item'' bsn). \<not> prefix ''##'' (trim l)"
    using p by (simp add: sp)
  note n = structured_sections_by_header_lines
      [where line = "''- item''" and t = Fixed and secs = "[]" and cur = None and c = open_added
         and ls = "[header_line_fixed]" and pre = "[''- item'', ''Added'']"
         and h = header_line_fixed and body = "[''just prose'', bullet_line_item]"
         and content = "''- item''"]
  note s = structured_sections_by_header_lines
      [where line = header_line_fixed and t = Fixed and secs = "[]" and cur = "Some open_added"]
  note u = structured_sections_by_header_lines
      [where line = bullet_line_item and secs = "[]" and c = open_added]
  from n p have n1: "sectionMatch (trim ''- item'') = None" by blast
  from n n1 have n2: "line_step ([], None) ''- item'' = ([], None)" by blast
  from n n1 have "line_step ([], Some open_added) ''- item'' =
      ([], Some (case bulletMatch (trim ''- item'') of
                   None \<Rightarrow> open_added
                 | Some item \<Rightarrow> open_added\<lparr>items := items open_added @ [item]\<rparr>))"
    by blast
  then have n4: "line_step ([], Some open_added) ''- item'' = ([], Some open_added)"
    by (simp add: b0)
  from u nb have "line_step ([], Some open_added) bullet_line_item =
      ([], Some (case bulletMatch (trim bullet_line_item) of
                   None \<Rightarrow> open_added
                 | Some item \<Rightarrow> open_added\<lparr>items := items open_added @ [item]\<rparr>))"
    by blast
  then have u1: "line_step ([], Some open_added) bullet_line_item =
       ([], Some \<lparr>type = Added, items = [''x'', ''item'']\<rparr>)"
    by (simp add: b1 open_added_def)
  from n a have n3: "parse_lines ([''- item'', ''Added''] @ [header_line_fixed]) =
      parse_lines [header_line_fixed]" by blast
  from n h bd have "parse_lines ([header_line_fixed] @ header_line_fixed # [''just prose'', bullet_line_item]) =
       parse_lines [header_line_fixed] @
       [\<lparr>type = Fixed, items = List.map_filter (\<lambda>l. bulletMatch (trim l))
                                  [''just prose'', bullet_line_item]\<rparr>]"
    by blast
  then have n5: "parse_lines ([header_line_fixed] @ header_line_fixed # [''just prose'', bullet_line_item]) =
       parse_lines [header_line_fixed] @ [\<lparr>type = Fixed, items = [''item'']\<rparr>]"
    by (simp only: mf)
  from n q have n6: "parse_sections ''- item'' = []" by blast
  from s h have s1: "line_step ([], Some open_added) header_line_fixed =
       ([open_added], Some \<lparr>type = Fixed, items = []\<rparr>)"
    unfolding c by blast
  from a have a': "list_all (\<lambda>l. sectionMatch (trim l) = None) [''- item'', ''Added'']"
    by (simp only: list_all_iff)
  from bd have bd': "list_all (\<lambda>l. sectionMatch (trim l) = None) [''just prose'', bullet_line_item]"
    by (simp only: list_all_iff)
  from q have q': "list_all (\<lambda>l. \<not> prefix ''##'' (trim l)) (split ''- item'' bsn)"
    by (simp only: list_all_iff)
  from p n1 h s1 n2 n4 nb u1 a' n3 bd' n5 q' n6 show ?thesis by (intro conjI)
qed

text \<open>
  C2, amended: in structured mode the synthesizer raises for no raw text and no
  ChangeSet; it always returns the serialized document of the parse, with the date, the
  sections and the summary of the counts of commits and files. A text in which no line
  is a header gives that document with an empty list of sections. The document with the
  raw text and the metadata belongs to the \<open>catch\<close> branch, which no string reaches.
\<close>

theorem formatAsJson_never_raises:
  "(\<forall>e. formatAsJson_try now content changes \<noteq> Inl e)
   \<and> formatAsJson now content changes = stringify [] (changelog_json now content changes)
   \<and> ((\<forall>l \<in> set (split content bsn). sectionMatch (trim l) = None) \<longrightarrow>
        formatAsJson now content changes = empty_sections_document now changes)"
proof -
  have a: "\<forall>e. formatAsJson_try now content changes \<noteq> Inl e"
    by (simp add: formatAsJson_try_def)
  have b: "formatAsJson now content changes = stringify [] (changelog_json now content changes)"
    by (simp add: formatAsJson_def formatAsJson_try_def)
  have c: "formatAsJson now content changes = empty_sections_document now changes"
    if "\<forall>l \<in> set (split content bsn). sectionMatch (trim l) = None"
    unfolding b changelog_json_def parse_sections_no_header [OF that] empty_sections_document_def
    by (simp del: toString.simps)
  from a b c show ?thesis by blast
qed

lemma garbled_lines: "split garbled bsn = [garbled]"
  by (simp add: garbled_def split_def bsn_def bs_def)

lemma garbled_no_header: "\<forall>l \<in> set (split garbled bsn). sectionMatch (trim l) = None"
  by (simp add: garbled_lines) (simp add: garbled_def sectionMatch_def trim_def is_space_def)

lemma isoDate_clock0: "isoDate clock0 = ''2024-05-01''"
  by (simp add: isoDate_def clock0_def split_def)

lemma garbled_document:
  "formatAsJson clock0 garbled changes_two_commits =
     ''{'' @ lf @
     ''  '' @ quote ''date'' @ '': '' @ quote ''2024-05-01'' @ '','' @ lf @
     ''  '' @ quote ''sections'' @ '': []'' @ '','' @ lf @
     ''  '' @ quote ''summary'' @ '': '' @ quote ''2 commits, 1 files changed'' @ lf @
     ''}''"
proof -
  have p: "parse_sections garbled = []"
    by (rule parse_sections_no_header [OF garbled_no_header])
  have d: "isoDate clock0 = ''2024-05-01''"
    by (simp add: isoDate_def clock0_def split_def)
  have n: "toString (length (commits changes_two_commits)) = ''2''
         \<and> toString (length (files changes_two_commits)) = ''1''"
    by (simp add: changes_two_commits_def two_commit_log_def digit_char_def)
  show ?thesis
    by (simp add: formatAsJson_def formatAsJson_try_def changelog_json_def p d n
        del: toString.simps)
qed

text \<open>
  C2, as stated: garbled text yields the fallback document, which holds the raw text.
  For the text \<open>%% not a changelog %%\<close> the code returns the document of the parse with
  no section; the raw text does not occur in it, while it occurs in the fallback
  document, so the two differ.
\<close>

theorem formatAsJson_garbled_counterexample:
  "formatAsJson clock0 garbled changes_two_commits =
     ''{'' @ lf @
     ''  '' @ quote ''date'' @ '': '' @ quote ''2024-05-01'' @ '','' @ lf @
     ''  '' @ quote ''sections'' @ '': []'' @ '','' @ lf @
     ''  '' @ quote ''summary'' @ '': '' @ quote ''2 commits, 1 files changed'' @ lf @
     ''}''
   \<and> \<not> sublist garbled (formatAsJson clock0 garbled changes_two_commits)
   \<and> formatAsJson clock0 garbled changes_two_commits \<noteq>
       stringify [] (fallback_json clock0 garbled changes_two_commits)"
proof -
  note g = garbled_document
  have s: "\<not> sublist garbled (formatAsJson clock0 garbled changes_two_commits)"
    unfolding g includes_str_sublist [symmetric]
    by (simp add: garbled_def lf_def quote_def quote_char_def bs_def)
  have "sublist garbled (stringify [] (fallback_json clock0 garbled changes_two_commits))"
    unfolding includes_str_sublist [symmetric]
    by (simp add: fallback_json_def isoDate_clock0 changes_two_commits_def two_commit_log_def
        digit_char_def garbled_def lf_def quote_def quote_char_def bs_def)
  with s have "formatAsJson clock0 garbled changes_two_commits \<noteq>
       stringify [] (fallback_json clock0 garbled changes_two_commits)"
    by metis
  with g s show ?thesis by (intro conjI)
qed

theorem formatAsJson_never_raises_witness:
  "list_all (\<lambda>l. sectionMatch (trim l) = None) (split garbled bsn)
   \<and> formatAsJson_try clock0 garbled changes_two_commits \<noteq> Inl ''TypeError''
   \<and> formatAsJson clock0 garbled changes_two_commits =
       empty_sections_document clock0 changes_two_commits"
proof -
  note t = formatAsJson_never_raises [of clock0 garbled changes_two_commits]
  from t have a: "formatAsJson_try clock0 garbled changes_two_commits \<noteq> Inl ''TypeError''"
    by blast
  from t garbled_no_header
  have b: "formatAsJson clock0 garbled changes_two_commits =
       empty_sections_document clock0 changes_two_commits"
    by blast
  from garbled_no_header have l: "list_all (\<lambda>l. sectionMatch (trim l) = None) (split garbled bsn)"
    by (simp only: list_all_iff)
  from l a b show ?thesis by (intro conjI)
qed

end
